theory Spec2Isabelle
  imports Complex_Main "HOL-Library.AList" "HOL-Library.Product_Lexorder"
begin

section \<open>Strings\<close>

text \<open>
  A JavaScript string is a sequence of UTF-16 code units. All string operations of
  \<^verbatim>\<open>performCustomerAnalysis\<close> (\<^verbatim>\<open>includes\<close>, \<^verbatim>\<open>===\<close>, \<^verbatim>\<open>trim\<close>, the regular expressions)
  work on code units, so a string is modelled as the list of its code units. The header
  labels the source names are in the Basic Multilingual Plane: one code unit per character.
\<close>

type_synonym ustring = "nat list"

text \<open>
  The string literals of the source, as code units. The comment of each gives the code
  points, and an English gloss in double quotes; ASCII literals are given as they are.
\<close>

definition s_chuci_daodian :: ustring where
  \<comment> \<open>U+521D U+6B21 U+5230 U+5E97 ("first visit")\<close>
  "s_chuci_daodian = [0x521D, 0x6B21, 0x5230, 0x5E97]"
definition s_riqi :: ustring where
  \<comment> \<open>U+65E5 U+671F ("date")\<close>
  "s_riqi = [0x65E5, 0x671F]"
definition s_Date :: ustring where
  \<comment> \<open>'Date'\<close>
  "s_Date = [0x44, 0x61, 0x74, 0x65]"
definition s_chengjiao :: ustring where
  \<comment> \<open>U+6210 U+4EA4 ("deal closed")\<close>
  "s_chengjiao = [0x6210, 0x4EA4]"
definition s_zhuangtai :: ustring where
  \<comment> \<open>U+72C0 U+614B ("status")\<close>
  "s_zhuangtai = [0x72C0, 0x614B]"
definition s_Status :: ustring where
  \<comment> \<open>'Status'\<close>
  "s_Status = [0x53, 0x74, 0x61, 0x74, 0x75, 0x73]"
definition s_jine :: ustring where
  \<comment> \<open>U+91D1 U+984D ("amount")\<close>
  "s_jine = [0x91D1, 0x984D]"
definition s_Amount :: ustring where
  \<comment> \<open>'Amount'\<close>
  "s_Amount = [0x41, 0x6D, 0x6F, 0x75, 0x6E, 0x74]"
definition s_jiage :: ustring where
  \<comment> \<open>U+50F9 U+683C ("price")\<close>
  "s_jiage = [0x50F9, 0x683C]"
definition s_zuo :: ustring where
  \<comment> \<open>U+5DE6 ("left")\<close>
  "s_zuo = [0x5DE6]"
definition s_you :: ustring where
  \<comment> \<open>U+53F3 ("right")\<close>
  "s_you = [0x53F3]"
definition s_er :: ustring where
  \<comment> \<open>U+8033 ("ear")\<close>
  "s_er = [0x8033]"
definition s_PTA :: ustring where
  \<comment> \<open>'PTA'\<close>
  "s_PTA = [0x50, 0x54, 0x41]"
definition s_zhu_tinglishi :: ustring where
  \<comment> \<open>U+4E3B U+807D U+529B U+5E2B ("chief audiologist")\<close>
  "s_zhu_tinglishi = [0x4E3B, 0x807D, 0x529B, 0x5E2B]"
definition s_tinglishi :: ustring where
  \<comment> \<open>U+807D U+529B U+5E2B ("audiologist")\<close>
  "s_tinglishi = [0x807D, 0x529B, 0x5E2B]"
definition s_weizhi_yewuyuan :: ustring where
  \<comment> \<open>U+672A U+77E5 U+696D U+52D9 U+54E1 ("unknown salesperson")\<close>
  "s_weizhi_yewuyuan = [0x672A, 0x77E5, 0x696D, 0x52D9, 0x54E1]"
definition s_shifou_chengjiao :: ustring where
  \<comment> \<open>U+662F U+5426 U+6210 U+4EA4 ("deal closed?")\<close>
  "s_shifou_chengjiao = [0x662F, 0x5426, 0x6210, 0x4EA4]"
definition s_shifou_jieji :: ustring where
  \<comment> \<open>U+662F U+5426 U+501F U+6A5F ("device on loan?")\<close>
  "s_shifou_jieji = [0x662F, 0x5426, 0x501F, 0x6A5F]"
definition s_shifou_you_jieji :: ustring where
  \<comment> \<open>U+662F U+5426 U+6709 U+501F U+6A5F ("has a device on loan?")\<close>
  "s_shifou_you_jieji = [0x662F, 0x5426, 0x6709, 0x501F, 0x6A5F]"
definition s_shi :: ustring where
  \<comment> \<open>U+662F ("yes")\<close>
  "s_shi = [0x662F]"
definition s_TRUE :: ustring where
  \<comment> \<open>'TRUE'\<close>
  "s_TRUE = [0x54, 0x52, 0x55, 0x45]"
definition s_yi_chengjiao :: ustring where
  \<comment> \<open>U+5DF2 U+6210 U+4EA4 ("deal already closed")\<close>
  "s_yi_chengjiao = [0x5DF2, 0x6210, 0x4EA4]"
definition s_chengjiao_jine :: ustring where
  \<comment> \<open>U+6210 U+4EA4 U+91D1 U+984D ("deal amount")\<close>
  "s_chengjiao_jine = [0x6210, 0x4EA4, 0x91D1, 0x984D]"
definition s_yingyee :: ustring where
  \<comment> \<open>U+71DF U+696D U+984D ("turnover")\<close>
  "s_yingyee = [0x71DF, 0x696D, 0x984D]"
definition s_fuwu_riqi :: ustring where
  \<comment> \<open>U+670D U+52D9 U+65E5 U+671F ("service date")\<close>
  "s_fuwu_riqi = [0x670D, 0x52D9, 0x65E5, 0x671F]"
definition s_zhensuo_mingcheng :: ustring where
  \<comment> \<open>U+8A3A U+6240 U+540D U+7A31 ("clinic name")\<close>
  "s_zhensuo_mingcheng = [0x8A3A, 0x6240, 0x540D, 0x7A31]"
definition s_menshi :: ustring where
  \<comment> \<open>U+9580 U+5E02 ("store")\<close>
  "s_menshi = [0x9580, 0x5E02]"
definition s_zidai :: ustring where
  \<comment> \<open>U+81EA U+5E36 ("brought along")\<close>
  "s_zidai = [0x81EA, 0x5E36]"
definition s_hash_NA :: ustring where
  \<comment> \<open>'#N/A'\<close>
  "s_hash_NA = [0x23, 0x4E, 0x2F, 0x41]"
definition s_guke_laiyuan :: ustring where
  \<comment> \<open>U+9867 U+5BA2 U+4F86 U+6E90 ("customer source")\<close>
  "s_guke_laiyuan = [0x9867, 0x5BA2, 0x4F86, 0x6E90]"
definition s_guke_laiyuan_multi :: ustring where
  \<comment> \<open>the literal of the four characters above, then U+21B5, '(', U+53EF U+8907 U+9078, ')'
      ("customer source, several may be chosen")\<close>
  "s_guke_laiyuan_multi =
     [0x9867, 0x5BA2, 0x4F86, 0x6E90, 0x21B5, 0x28, 0x53EF, 0x8907, 0x9078, 0x29]"
definition s_tingshai :: ustring where
  \<comment> \<open>U+807D U+7BE9 ("hearing screening")\<close>
  "s_tingshai = [0x807D, 0x7BE9]"
definition c_nian :: nat where
  \<comment> \<open>U+5E74 ("year")\<close>
  "c_nian = 0x5E74"
definition c_yue :: nat where
  \<comment> \<open>U+6708 ("month")\<close>
  "c_yue = 0x6708"
definition c_ri :: nat where
  \<comment> \<open>U+65E5 ("day")\<close>
  "c_ri = 0x65E5"
definition s_error_no_date :: ustring where
  \<comment> \<open>the message of the source: no date column was found, please check that the
      sheet has the date of the first visit\<close>
  "s_error_no_date =
     [0x627E, 0x4E0D, 0x5230, 0x65E5, 0x671F, 0x76F8, 0x95DC, 0x6B04, 0x4F4D, 0xFF0C, 0x8ACB,
      0x78BA, 0x8A8D, 0x8CC7, 0x6599, 0x8868, 0x5305, 0x542B, 0x521D, 0x6B21, 0x5230, 0x5E97,
      0x65E5, 0x671F]"

fun startsWith :: "ustring \<Rightarrow> ustring \<Rightarrow> bool" where
  "startsWith _ [] = True"
| "startsWith [] (p # ps) = False"
| "startsWith (c # cs) (p # ps) = (c = p \<and> startsWith cs ps)"

text \<open>\<^verbatim>\<open>s.includes(sub)\<close>: \<^verbatim>\<open>sub\<close> occurs in \<^verbatim>\<open>s\<close> at some position.\<close>

fun str_includes :: "ustring \<Rightarrow> ustring \<Rightarrow> bool" where
  "str_includes [] sub = (sub = [])"
| "str_includes (c # cs) sub = (startsWith (c # cs) sub \<or> str_includes cs sub)"

text \<open>
  \<^verbatim>\<open>String.prototype.trim\<close> removes the WhiteSpace and LineTerminator code points of
  ECMAScript from both ends.
\<close>

definition isWhiteSpace :: "nat \<Rightarrow> bool" where
  "isWhiteSpace c \<longleftrightarrow>
     c \<in> {0x09, 0x0A, 0x0B, 0x0C, 0x0D, 0x20, 0xA0, 0x1680, 0x2028, 0x2029, 0x202F, 0x205F,
          0x3000, 0xFEFF} \<or> (0x2000 \<le> c \<and> c \<le> 0x200A)"

definition trim :: "ustring \<Rightarrow> ustring" where
  "trim s = rev (dropWhile isWhiteSpace (rev (dropWhile isWhiteSpace s)))"

text \<open>
  \<^verbatim>\<open>toUpperCase\<close> maps every code point to its upper-case form in the full case mapping
  of Unicode, which may be longer than one character. The source uses it only before
  \<^verbatim>\<open>includes('PTA')\<close>. \<^term>\<open>upperUnit\<close> has the upper-case form of every character
  whose upper-case form contains an ASCII character: the letters a to z and seventeen
  others, among them U+1E97 (T and a combining diaeresis), U+1E9A (A and a modifier half
  ring), and the ligatures U+FB05 and U+FB06 (S, T). Any other code unit is left as it is:
  it is not an ASCII letter, its upper-case form has no ASCII letter and is not empty, so
  it separates the ASCII letters around it in the model as it does in the engine, and
  whether the result contains \<^verbatim>\<open>PTA\<close> is the same.
\<close>

definition upperUnit :: "nat \<Rightarrow> ustring" where
  "upperUnit c =
     (if 0x61 \<le> c \<and> c \<le> 0x7A then [c - 0x20]
      else if c = 0xDF then [0x53, 0x53]
      else if c = 0x131 then [0x49]
      else if c = 0x149 then [0x2BC, 0x4E]
      else if c = 0x17F then [0x53]
      else if c = 0x1F0 then [0x4A, 0x30C]
      else if c = 0x1E96 then [0x48, 0x331]
      else if c = 0x1E97 then [0x54, 0x308]
      else if c = 0x1E98 then [0x57, 0x30A]
      else if c = 0x1E99 then [0x59, 0x30A]
      else if c = 0x1E9A then [0x41, 0x2BE]
      else if c = 0xFB00 then [0x46, 0x46]
      else if c = 0xFB01 then [0x46, 0x49]
      else if c = 0xFB02 then [0x46, 0x4C]
      else if c = 0xFB03 then [0x46, 0x46, 0x49]
      else if c = 0xFB04 then [0x46, 0x46, 0x4C]
      else if c = 0xFB05 \<or> c = 0xFB06 then [0x53, 0x54]
      else [c])"

definition toUpperCase :: "ustring \<Rightarrow> ustring" where
  "toUpperCase s = concat (map upperUnit s)"

definition isDigit :: "nat \<Rightarrow> bool" where
  "isDigit c \<longleftrightarrow> 0x30 \<le> c \<and> c \<le> 0x39"

text \<open>\<^verbatim>\<open>parseInt\<close> on a string of decimal digits.\<close>

definition digitsVal :: "ustring \<Rightarrow> nat" where
  "digitsVal ds = foldl (\<lambda>acc c. 10 * acc + (c - 0x30)) 0 ds"

section \<open>Numbers\<close>

text \<open>
  A JavaScript number is NaN, an infinity or a finite value. Finite values are modelled
  as exact reals: the rounding of IEEE doubles and the overflow of very long digit strings
  to Infinity are not modelled; signed zeros are not distinguished.
\<close>

datatype jsnum = NaN | Inf bool | Num real

fun isNaN :: "jsnum \<Rightarrow> bool" where
  "isNaN NaN = True"
| "isNaN _ = False"

text \<open>\<^verbatim>\<open>a > b\<close>: false as soon as one side is NaN. \<^verbatim>\<open>Inf True\<close> is +Infinity.\<close>

fun jsgt :: "jsnum \<Rightarrow> jsnum \<Rightarrow> bool" where
  "jsgt (Num a) (Num b) = (a > b)"
| "jsgt (Inf s) (Num b) = s"
| "jsgt (Num a) (Inf t) = (\<not> t)"
| "jsgt (Inf s) (Inf t) = (s \<and> \<not> t)"
| "jsgt _ _ = False"

fun jsadd :: "jsnum \<Rightarrow> jsnum \<Rightarrow> jsnum" where
  "jsadd (Num a) (Num b) = Num (a + b)"
| "jsadd (Inf s) (Num b) = Inf s"
| "jsadd (Num a) (Inf t) = Inf t"
| "jsadd (Inf s) (Inf t) = (if s = t then Inf s else NaN)"
| "jsadd _ _ = NaN"

fun jsmul :: "jsnum \<Rightarrow> jsnum \<Rightarrow> jsnum" where
  "jsmul (Num a) (Num b) = Num (a * b)"
| "jsmul (Inf s) (Num b) = (if b = 0 then NaN else Inf (s = (b > 0)))"
| "jsmul (Num a) (Inf t) = (if a = 0 then NaN else Inf (t = (a > 0)))"
| "jsmul (Inf s) (Inf t) = Inf (s = t)"
| "jsmul _ _ = NaN"

fun jsdiv :: "jsnum \<Rightarrow> jsnum \<Rightarrow> jsnum" where
  "jsdiv (Num a) (Num b) = (if b = 0 then (if a = 0 then NaN else Inf (a > 0)) else Num (a / b))"
| "jsdiv (Inf s) (Num b) = Inf (s = (b \<ge> 0))"
| "jsdiv (Num a) (Inf t) = Num 0"
| "jsdiv _ _ = NaN"

text \<open>
  \<^verbatim>\<open>parseFloat\<close> reads the longest prefix that is a decimal literal: digits, then
  optionally a point and digits; at least one digit is needed. The argument the source passes
  is always the output of \<^verbatim>\<open>replace(/[^0-9.]/g, '')\<close>, so it holds digits and points
  only; signs, exponents and leading white space do not occur and are not modelled.
\<close>

definition parseFloat :: "ustring \<Rightarrow> jsnum" where
  "parseFloat s =
     (let ip = takeWhile isDigit s;
          rest = dropWhile isDigit s;
          fp = (case rest of [] \<Rightarrow> [] | c # r \<Rightarrow> if c = 0x2E then takeWhile isDigit r else [])
      in if ip = [] \<and> fp = [] then NaN
         else Num (real (digitsVal ip) + real (digitsVal fp) / 10 ^ length fp))"

text \<open>\<^verbatim>\<open>value.toString().replace(/[^0-9.]/g, '')\<close>\<close>

definition cleaned :: "ustring \<Rightarrow> ustring" where
  "cleaned s = filter (\<lambda>c. isDigit c \<or> c = 0x2E) s"

text \<open>
  \<^verbatim>\<open>parseAmount\<close> and \<^verbatim>\<open>parseNumber\<close> (same body). The argument is
  \<^verbatim>\<open>string | undefined\<close>: \<open>None\<close> is \<^verbatim>\<open>undefined\<close>; \<^verbatim>\<open>!value\<close> holds for
  \<^verbatim>\<open>undefined\<close> and for the empty string.
\<close>

definition parseAmount :: "ustring option \<Rightarrow> jsnum" where
  "parseAmount v = (case v of None \<Rightarrow> NaN
                    | Some s \<Rightarrow> if s = [] then NaN else parseFloat (cleaned s))"

definition parseNumber :: "ustring option \<Rightarrow> jsnum" where
  "parseNumber v = (case v of None \<Rightarrow> NaN
                    | Some s \<Rightarrow> if s = [] then NaN else parseFloat (cleaned s))"

section \<open>Dates\<close>

text \<open>
  A valid \<^verbatim>\<open>Date\<close> is modelled by its local calendar fields: \<^verbatim>\<open>getFullYear()\<close>,
  \<^verbatim>\<open>getMonth()\<close> (0 to 11), \<^verbatim>\<open>getDate()\<close> and the milliseconds since local midnight.
  Comparing two dates with \<^verbatim>\<open><\<close> and \<^verbatim>\<open>>\<close> compares their time values, which is the
  lexicographic order of these fields (the local time zone is taken to have no gaps at
  midnight). An invalid date is \<open>None\<close>.
\<close>

record jsdate =
  d_year :: int
  d_month :: nat
  d_day :: nat
  d_time :: nat

definition date_lt :: "jsdate \<Rightarrow> jsdate \<Rightarrow> bool" where
  "date_lt a b \<longleftrightarrow>
     d_year a < d_year b \<or>
     (d_year a = d_year b \<and>
       (d_month a < d_month b \<or>
       (d_month a = d_month b \<and>
         (d_day a < d_day b \<or> (d_day a = d_day b \<and> d_time a < d_time b)))))"

definition isLeap :: "int \<Rightarrow> bool" where
  "isLeap y \<longleftrightarrow> (y mod 4 = 0 \<and> y mod 100 \<noteq> 0) \<or> y mod 400 = 0"

definition daysInMonth :: "int \<Rightarrow> nat \<Rightarrow> nat" where
  "daysInMonth y m =
     (if m = 1 then (if isLeap y then 29 else 28)
      else if m = 3 \<or> m = 5 \<or> m = 8 \<or> m = 10 then 30 else 31)"

text \<open>Day \<open>d \<ge> 1\<close> of month \<open>m\<close>: days beyond the end of the month run into the next months.\<close>

function rollDay :: "int \<Rightarrow> nat \<Rightarrow> nat \<Rightarrow> jsdate" where
  "rollDay y m d =
     (if daysInMonth y m < d
      then (if 11 \<le> m then rollDay (y + 1) 0 (d - daysInMonth y m)
            else rollDay y (Suc m) (d - daysInMonth y m))
      else \<lparr>d_year = y, d_month = m, d_day = d, d_time = 0\<rparr>)"
  by pat_completeness auto
termination
  by (relation "measure (\<lambda>(y, m, d). d)") (auto simp: daysInMonth_def)

declare rollDay.simps [simp del]

text \<open>
  \<^verbatim>\<open>new Date(year, monthIndex, day)\<close> for integer arguments with \<open>day \<ge> 0\<close>: local
  midnight. A year from 0 to 99 means 1900 + year; a month index outside 0..11 carries
  into the year; day 0 is the last day of the month before; a day beyond the end of the
  month runs into the following months.
\<close>

definition fullYear :: "int \<Rightarrow> int" where
  "fullYear y = (if 0 \<le> y \<and> y \<le> 99 then 1900 + y else y)"

definition mkDate :: "int \<Rightarrow> int \<Rightarrow> nat \<Rightarrow> jsdate" where
  "mkDate y mi d =
     (let yy = fullYear y + mi div 12;
          mm = nat (mi mod 12)
      in if d = 0
         then (let py = (if mm = 0 then yy - 1 else yy); pm = (if mm = 0 then 11 else mm - 1)
               in \<lparr>d_year = py, d_month = pm, d_day = daysInMonth py pm, d_time = 0\<rparr>)
         else rollDay yy mm d)"

subsection \<open>The three structural date formats\<close>

text \<open>
  \<^verbatim>\<open>\d{1,2}\<close> at the head of a string, greedy. In all three formats it is followed
  by a character that is not a digit or by nothing, so taking the second digit whenever
  there is one is what the backtracking matcher does. The result is the matched digits and
  the rest of the string.
\<close>

fun take_d12 :: "ustring \<Rightarrow> (ustring \<times> ustring) option" where
  "take_d12 (a # b # r) =
     (if isDigit a then (if isDigit b then Some ([a, b], r) else Some ([a], b # r)) else None)"
| "take_d12 [a] = (if isDigit a then Some ([a], []) else None)"
| "take_d12 [] = None"

text \<open>\<^verbatim>\<open>\d{4}\<close> at the head of a string.\<close>

fun take_d4 :: "ustring \<Rightarrow> (ustring \<times> ustring) option" where
  "take_d4 (a # b # c # d # r) =
     (if isDigit a \<and> isDigit b \<and> isDigit c \<and> isDigit d then Some ([a, b, c, d], r) else None)"
| "take_d4 _ = None"

text \<open>One given character (by a predicate) at the head of a string.\<close>

fun take_char :: "(nat \<Rightarrow> bool) \<Rightarrow> ustring \<Rightarrow> ustring option" where
  "take_char P (c # r) = (if P c then Some r else None)"
| "take_char P [] = None"

definition isSep :: "nat \<Rightarrow> bool" where \<comment> \<open>the class \<^verbatim>\<open>[/-]\<close>\<close>
  "isSep c \<longleftrightarrow> c = 0x2F \<or> c = 0x2D"

text \<open>
  The formats matched at the head of a string; the result is the three groups as
  \<^verbatim>\<open>parseInt\<close> reads them.
  \<^item> \<^verbatim>\<open>/(\d{4})[/-](\d{1,2})[/-](\d{1,2})/\<close>
  \<^item> \<^verbatim>\<open>/(\d{1,2})[/-](\d{1,2})[/-](\d{4})/\<close>
  \<^item> \<^verbatim>\<open>/(\d{4})Y(\d{1,2})M(\d{1,2})D?/\<close>, where Y, M and D stand for the characters
    U+5E74 ("year"), U+6708 ("month") and U+65E5 ("day")
\<close>

definition format0_at :: "ustring \<Rightarrow> (nat \<times> nat \<times> nat) option" where
  "format0_at s =
     Option.bind (take_d4 s) (\<lambda>(g1, r1).
     Option.bind (take_char isSep r1) (\<lambda>r2.
     Option.bind (take_d12 r2) (\<lambda>(g2, r3).
     Option.bind (take_char isSep r3) (\<lambda>r4.
     Option.bind (take_d12 r4) (\<lambda>(g3, r5).
       Some (digitsVal g1, digitsVal g2, digitsVal g3))))))"

definition format1_at :: "ustring \<Rightarrow> (nat \<times> nat \<times> nat) option" where
  "format1_at s =
     Option.bind (take_d12 s) (\<lambda>(g1, r1).
     Option.bind (take_char isSep r1) (\<lambda>r2.
     Option.bind (take_d12 r2) (\<lambda>(g2, r3).
     Option.bind (take_char isSep r3) (\<lambda>r4.
     Option.bind (take_d4 r4) (\<lambda>(g3, r5).
       Some (digitsVal g1, digitsVal g2, digitsVal g3))))))"

definition format2_at :: "ustring \<Rightarrow> (nat \<times> nat \<times> nat) option" where
  "format2_at s =
     Option.bind (take_d4 s) (\<lambda>(g1, r1).
     Option.bind (take_char (\<lambda>c. c = c_nian) r1) (\<lambda>r2.
     Option.bind (take_d12 r2) (\<lambda>(g2, r3).
     Option.bind (take_char (\<lambda>c. c = c_yue) r3) (\<lambda>r4.
     Option.bind (take_d12 r4) (\<lambda>(g3, r5).
       Some (digitsVal g1, digitsVal g2, digitsVal g3))))))"

text \<open>
  \<^verbatim>\<open>dateStr.match(format)\<close>: the regular expressions are not anchored, so the match
  is the one at the leftmost position where the format matches.
\<close>

fun regex_match :: "(ustring \<Rightarrow> 'a option) \<Rightarrow> ustring \<Rightarrow> 'a option" where
  "regex_match f [] = f []"
| "regex_match f (c # cs) =
     (case f (c # cs) of Some r \<Rightarrow> Some r | None \<Rightarrow> regex_match f cs)"

text \<open>
  The date of a row: the first format that matches decides, in the order of
  \<^verbatim>\<open>dateFormats\<close>; if none matches, \<^verbatim>\<open>new Date(dateStr)\<close>. What \<^verbatim>\<open>new Date\<close> makes
  of a string that is not in the ISO format is left to the JavaScript engine, so it is a
  parameter \<open>gp\<close> of the model (\<open>None\<close>: Invalid Date).
\<close>

type_synonym engine_parse = "ustring \<Rightarrow> jsdate option"

definition parseRowDate :: "engine_parse \<Rightarrow> ustring \<Rightarrow> jsdate option" where
  "parseRowDate gp dateStr =
     (case regex_match format0_at dateStr of
        Some (g1, g2, g3) \<Rightarrow> Some (mkDate (int g1) (int g2 - 1) g3)
      | None \<Rightarrow>
     (case regex_match format1_at dateStr of
        Some (g1, g2, g3) \<Rightarrow> Some (mkDate (int g3) (int g1 - 1) g2)
      | None \<Rightarrow>
     (case regex_match format2_at dateStr of
        Some (g1, g2, g3) \<Rightarrow> Some (mkDate (int g1) (int g2 - 1) g3)
      | None \<Rightarrow> gp dateStr)))"

record DateRange =
  startYear :: int
  startMonth :: int
  endYear :: int
  endMonth :: int

text \<open>
  The window test: \<^verbatim>\<open>startDate = new Date(startYear, startMonth - 1, 1)\<close>,
  \<^verbatim>\<open>endDate = new Date(endYear, endMonth, 0)\<close>, and the row is skipped when
  \<^verbatim>\<open>date < startDate || date > endDate\<close>.
\<close>

definition inWindow :: "DateRange \<Rightarrow> jsdate \<Rightarrow> bool" where
  "inWindow dr date =
     (let startDate = mkDate (startYear dr) (startMonth dr - 1) 1;
          endDate = mkDate (endYear dr) (endMonth dr) 0
      in \<not> (date_lt date startDate \<or> date_lt endDate date))"

section \<open>From the grid to the customer objects\<close>

type_synonym grid = "ustring list list"

text \<open>\<^verbatim>\<open>row[index]\<close>: \<open>None\<close> is \<^verbatim>\<open>undefined\<close>, read beyond the end of the row.\<close>

definition cell :: "ustring list \<Rightarrow> nat \<Rightarrow> ustring option" where
  "cell row i = (if i < length row then Some (row ! i) else None)"

text \<open>A string or \<^verbatim>\<open>undefined\<close> is falsy when it is \<^verbatim>\<open>undefined\<close> or empty.\<close>

fun truthy :: "ustring option \<Rightarrow> bool" where
  "truthy None = False"
| "truthy (Some s) = (s \<noteq> [])"

text \<open>\<^verbatim>\<open>a || b\<close>, and \<^verbatim>\<open>a || 'literal'\<close> whose value is always a string.\<close>

definition orDefault :: "ustring option \<Rightarrow> ustring \<Rightarrow> ustring" where
  "orDefault a d = (case a of None \<Rightarrow> d | Some s \<Rightarrow> if s = [] then d else s)"

definition orElse :: "ustring option \<Rightarrow> ustring option \<Rightarrow> ustring option" where
  "orElse a b = (if truthy a then a else b)"

text \<open>\<^verbatim>\<open>headers.findIndex(p)\<close>: \<open>None\<close> is \<^verbatim>\<open>-1\<close>.\<close>

fun findIndex :: "('a \<Rightarrow> bool) \<Rightarrow> 'a list \<Rightarrow> nat option" where
  "findIndex P [] = None"
| "findIndex P (x # xs) = (if P x then Some 0 else map_option Suc (findIndex P xs))"

definition isDateHeader :: "ustring \<Rightarrow> bool" where
  "isDateHeader header \<longleftrightarrow>
     str_includes header s_chuci_daodian \<or> str_includes header s_riqi \<or> str_includes header s_Date"

definition isStatusHeader :: "ustring \<Rightarrow> bool" where
  "isStatusHeader header \<longleftrightarrow>
     str_includes header s_chengjiao \<or> str_includes header s_zhuangtai \<or> str_includes header s_Status"

definition isAmountHeader :: "ustring \<Rightarrow> bool" where
  "isAmountHeader header \<longleftrightarrow>
     str_includes header s_jine \<or> str_includes header s_Amount \<or> str_includes header s_jiage"

text \<open>
  An object with string keys and string values is an association list in the order in which
  the keys were first assigned: \<^verbatim>\<open>obj[k] = v\<close> is \<^const>\<open>AList.update\<close>, \<^verbatim>\<open>obj[k]\<close> is
  \<^const>\<open>map_of\<close> (\<open>None\<close>: \<^verbatim>\<open>undefined\<close>), \<^verbatim>\<open>Object.keys(obj)\<close> is \<^term>\<open>map fst\<close>.
  Two things are outside the model: keys that name a property of \<^verbatim>\<open>Object.prototype\<close>
  (such as \<^verbatim>\<open>__proto__\<close> or \<^verbatim>\<open>constructor\<close>), and the rule of JavaScript that keys
  that look like array indices come first in the key order. Neither changes what the
  source reads from a customer object: it looks up fixed labels, none of them a property of
  \<^verbatim>\<open>Object.prototype\<close>, and searches the keys only for labels that contain a character
  other than a digit. They would matter for an aggregate whose key (a salesperson, clinic
  or store name) is such a string.
\<close>

type_synonym customer = "(ustring \<times> ustring) list"

text \<open>
  The loop over the data rows stores, for a row that passes, a \<^verbatim>\<open>rowData\<close> object
  that has, under each header label, the content \<^verbatim>\<open>values[i][index] || ''\<close>; the
  customer object is then filled from it header by header. With a header label that occurs
  twice, both objects keep the place of the first occurrence and the cell of the last one.
\<close>

definition fieldContents :: "ustring list \<Rightarrow> ustring list \<Rightarrow> customer" where
  "fieldContents headers row =
     fold (\<lambda>(index, header) obj.
             AList.update header (case cell row index of None \<Rightarrow> [] | Some v \<Rightarrow> v) obj)
          (enumerate 0 headers) []"

text \<open>
  The basic information of \<^verbatim>\<open>rowData\<close>: the row number, the trimmed date cell, and
  the status and amount cells with their placeholders (the two renderings of the parsed
  date are left out). Nothing after the loop reads these fields. The loop also fills an
  object \<^verbatim>\<open>monthlyData\<close> and the variables \<^verbatim>\<open>earliestDate\<close> and \<^verbatim>\<open>latestDate\<close>, which
  nothing reads either; they are not modelled.
\<close>

definition s_no_status :: ustring where
  \<comment> \<open>U+7121 U+72C0 U+614B U+6B04 U+4F4D ("no status column")\<close>
  "s_no_status = [0x7121, 0x72C0, 0x614B, 0x6B04, 0x4F4D]"
definition s_no_amount :: ustring where
  \<comment> \<open>U+7121 U+91D1 U+984D U+6B04 U+4F4D ("no amount column")\<close>
  "s_no_amount = [0x7121, 0x91D1, 0x984D, 0x6B04, 0x4F4D]"

record rowData =
  rd_rowNumber :: nat \<comment> \<open>the field U+539F U+59CB U+884C U+865F ("original row number")\<close>
  rd_dateField :: ustring \<comment> \<open>the field U+65E5 U+671F U+5B57 U+6BB5 ("date field")\<close>
  rd_status :: ustring \<comment> \<open>the field U+72C0 U+614B ("status")\<close>
  rd_amount :: ustring \<comment> \<open>the field U+91D1 U+984D ("amount")\<close>
  rd_fields :: customer \<comment> \<open>the content stored under each header label\<close>

definition infoCell :: "nat option \<Rightarrow> ustring list \<Rightarrow> ustring \<Rightarrow> ustring" where
  "infoCell columnIndex row placeholder =
     (case columnIndex of None \<Rightarrow> placeholder
      | Some j \<Rightarrow> (case cell row j of None \<Rightarrow> placeholder
                   | Some v \<Rightarrow> if v = [] then placeholder else v))"

text \<open>
  One turn of the loop \<^verbatim>\<open>for (let i = 1; i < values.length; i++)\<close>: \<open>None\<close> when the
  row is skipped by one of the \<^verbatim>\<open>continue\<close> statements, the stored \<^verbatim>\<open>rowData\<close> otherwise.
\<close>

definition processRow ::
  "engine_parse \<Rightarrow> DateRange \<Rightarrow> ustring list \<Rightarrow> nat \<Rightarrow> nat option \<Rightarrow> nat option \<Rightarrow>
   nat \<Rightarrow> ustring list \<Rightarrow> rowData option" where
  "processRow gp dr headers dateColumnIndex statusColumnIndex amountColumnIndex i row =
     (case cell row dateColumnIndex of
        None \<Rightarrow> None
      | Some raw \<Rightarrow>
          if raw = [] then None
          else let dateStr = trim raw in
            if dateStr = [] then None
            else (case parseRowDate gp dateStr of
                    None \<Rightarrow> None
                  | Some date \<Rightarrow>
                      if \<not> inWindow dr date then None
                      else Some \<lparr>rd_rowNumber = i + 1, rd_dateField = dateStr,
                                 rd_status = infoCell statusColumnIndex row s_no_status,
                                 rd_amount = infoCell amountColumnIndex row s_no_amount,
                                 rd_fields = fieldContents headers row\<rparr>))"

definition filteredRows ::
  "engine_parse \<Rightarrow> DateRange \<Rightarrow> grid \<Rightarrow> nat \<Rightarrow> rowData list" where
  "filteredRows gp dr values dateColumnIndex =
     (let headers = hd values;
          statusColumnIndex = findIndex isStatusHeader headers;
          amountColumnIndex = findIndex isAmountHeader headers
      in List.map_filter
           (\<lambda>(i, row). processRow gp dr headers dateColumnIndex statusColumnIndex
                          amountColumnIndex i row)
           (enumerate 1 (tl values)))"

definition customersArray :: "rowData list \<Rightarrow> customer list" where
  "customersArray rows = map rd_fields rows"

section \<open>Classification of a customer\<close>

text \<open>\<^verbatim>\<open>customer[key] === value\<close>\<close>

definition cellIs :: "customer \<Rightarrow> ustring \<Rightarrow> ustring \<Rightarrow> bool" where
  "cellIs c key v \<longleftrightarrow> map_of c key = Some v"

datatype ear = LeftEar | RightEar

definition earLabel :: "ear \<Rightarrow> ustring" where
  "earLabel e = (case e of LeftEar \<Rightarrow> s_zuo | RightEar \<Rightarrow> s_you)"

definition getEarPTA :: "customer \<Rightarrow> ear \<Rightarrow> jsnum" where
  "getEarPTA c e =
     (case find (\<lambda>k. str_includes k (earLabel e @ s_er) \<and> str_includes (toUpperCase k) s_PTA)
                (map fst c) of
        None \<Rightarrow> NaN
      | Some key \<Rightarrow> parseNumber (map_of c key))"

text \<open>
  The source writes the "is it a deal" test out again in every pass, and not always with
  the same operands. Each definition below is one of these expressions, named after the
  variable it is assigned to and the pass it is in.
\<close>

definition isDealt :: "customer \<Rightarrow> bool" where \<comment> \<open>\<^verbatim>\<open>isDealt\<close> of the two salesperson passes\<close>
  "isDealt c \<longleftrightarrow>
     cellIs c s_shifou_chengjiao s_shi \<or> cellIs c s_shifou_chengjiao s_TRUE \<or>
     cellIs c s_shifou_jieji s_TRUE \<or> cellIs c s_shifou_you_jieji s_TRUE \<or>
     cellIs c s_shifou_jieji s_shi \<or>
     cellIs c s_chengjiao s_shi \<or> cellIs c s_chengjiao s_TRUE \<or>
     cellIs c s_zhuangtai s_chengjiao \<or> cellIs c s_zhuangtai s_yi_chengjiao"

definition isDealtClinic :: "customer \<Rightarrow> bool" where
  \<comment> \<open>\<^verbatim>\<open>isDealtClinic\<close> of the monthly and the clinic pass, \<^verbatim>\<open>isDealt\<close> of the clinic pass,
      \<^verbatim>\<open>isDealtStore\<close>: the same expression four times\<close>
  "isDealtClinic c \<longleftrightarrow>
     cellIs c s_shifou_chengjiao s_shi \<or> cellIs c s_shifou_chengjiao s_TRUE \<or>
     cellIs c s_shifou_jieji s_TRUE \<or> cellIs c s_chengjiao s_shi \<or>
     cellIs c s_chengjiao s_TRUE \<or> cellIs c s_zhuangtai s_chengjiao \<or>
     cellIs c s_zhuangtai s_yi_chengjiao"

definition isDealtMonthly :: "customer \<Rightarrow> bool" where \<comment> \<open>\<^verbatim>\<open>isDealt\<close> of the monthly pass\<close>
  "isDealtMonthly c \<longleftrightarrow>
     cellIs c s_shifou_chengjiao s_shi \<or> cellIs c s_shifou_chengjiao s_TRUE \<or>
     cellIs c s_shifou_jieji s_TRUE \<or> cellIs c s_shifou_you_jieji s_TRUE \<or>
     cellIs c s_shifou_jieji s_TRUE \<or> cellIs c s_shifou_jieji s_shi"

definition isDealtHS :: "customer \<Rightarrow> bool" where \<comment> \<open>\<^verbatim>\<open>isDealtHS\<close> of the hearing-screening pass\<close>
  "isDealtHS c \<longleftrightarrow>
     cellIs c s_shifou_chengjiao s_shi \<or> cellIs c s_shifou_chengjiao s_TRUE \<or>
     cellIs c s_shifou_jieji s_TRUE \<or> cellIs c s_shifou_you_jieji s_TRUE \<or>
     cellIs c s_shifou_jieji s_shi \<or> cellIs c s_chengjiao s_shi \<or> cellIs c s_chengjiao s_TRUE \<or>
     cellIs c s_zhuangtai s_chengjiao \<or> cellIs c s_zhuangtai s_yi_chengjiao"

text \<open>
  \<^verbatim>\<open>leftEarPTA > ptaThreshold || rightEarPTA > ptaThreshold || dealt\<close>, where \<open>dealt\<close>
  is the deal test of the pass.
\<close>

definition potentialWith :: "real \<Rightarrow> customer \<Rightarrow> bool \<Rightarrow> bool" where
  "potentialWith ptaThreshold c dealt \<longleftrightarrow>
     jsgt (getEarPTA c LeftEar) (Num ptaThreshold) \<or>
     jsgt (getEarPTA c RightEar) (Num ptaThreshold) \<or> dealt"

definition isPotentialCustomer :: "real \<Rightarrow> customer \<Rightarrow> bool" where
  \<comment> \<open>\<^verbatim>\<open>isPotentialCustomer\<close> of the salesperson pass\<close>
  "isPotentialCustomer ptaThreshold c = potentialWith ptaThreshold c (isDealt c)"

text \<open>
  The first cell that is not empty among "deal amount", "amount", "price" and "turnover"
  (\<^verbatim>\<open>customer[a] || customer[b] || customer[c] || customer[d]\<close>, with or without a
  final \<^verbatim>\<open>|| ''\<close>: \<^verbatim>\<open>parseAmount\<close> gives NaN for \<^verbatim>\<open>undefined\<close> and for the empty
  string alike), read by \<^verbatim>\<open>parseAmount\<close>.
\<close>

definition dealAmount :: "customer \<Rightarrow> jsnum" where
  "dealAmount c =
     parseAmount (orElse (map_of c s_chengjiao_jine) (orElse (map_of c s_jine)
                    (orElse (map_of c s_jiage) (map_of c s_yingyee))))"

text \<open>
  \<^verbatim>\<open>if (!isNaN(dealAmount) && dealAmount > 0) total += dealAmount\<close>
\<close>

definition addAmount :: "jsnum \<Rightarrow> jsnum \<Rightarrow> jsnum" where
  "addAmount tot amount =
     (if \<not> isNaN amount \<and> jsgt amount (Num 0) then jsadd tot amount else tot)"

section \<open>The salesperson passes and the global totals\<close>

record salesmanEntry =
  se_name :: ustring \<comment> \<open>the field U+696D U+52D9 U+54E1 ("salesperson")\<close>
  se_orders :: nat \<comment> \<open>the field U+8A02 U+55AE U+6578 U+91CF ("number of orders")\<close>
  se_potential :: nat
    \<comment> \<open>the field U+6F5B U+529B U+5BA2 U+6236 U+6578 ("number of potential customers")\<close>
  se_rate :: jsnum \<comment> \<open>the field U+6210 U+4EA4 U+7387 ("deal rate")\<close>
  se_revenue :: jsnum
    \<comment> \<open>the field U+7576 U+5B63 U+696D U+7E3E U+7D2F U+7A4D ("revenue of the season")\<close>

type_synonym salesmen = "(ustring \<times> salesmanEntry) list"

definition salesmanOf :: "customer \<Rightarrow> ustring" where
  \<comment> \<open>the cell "chief audiologist", else the cell "audiologist", else the literal
      "unknown salesperson": \<^verbatim>\<open>customer[a] || customer[b] || 'literal'\<close>\<close>
  "salesmanOf c =
     orDefault (orElse (map_of c s_zhu_tinglishi) (map_of c s_tinglishi)) s_weizhi_yewuyuan"

text \<open>First pass: a fresh entry for every salesperson not seen before.\<close>

definition initStep :: "customer \<Rightarrow> salesmen \<Rightarrow> salesmen" where
  "initStep c sa =
     (let salesman = salesmanOf c in
      if map_of sa salesman = None
      then AList.update salesman
             \<lparr>se_name = salesman, se_orders = 0, se_potential = 0, se_rate = Num 0,
              se_revenue = Num 0\<rparr> sa
      else sa)"

definition initSalesmen :: "customer list \<Rightarrow> salesmen" where
  "initSalesmen cs = fold initStep cs []"

record countAcc =
  acc_salesmen :: salesmen
  acc_totalPotentialCustomers :: nat
  acc_totalOrders :: nat

text \<open>Second pass: the counters of each salesperson and of the whole report.\<close>

definition countStep :: "real \<Rightarrow> customer \<Rightarrow> countAcc \<Rightarrow> countAcc" where
  "countStep ptaThreshold c acc =
     (let salesman = salesmanOf c;
          acc1 = (if isPotentialCustomer ptaThreshold c
                  then acc\<lparr>acc_salesmen :=
                             AList.map_entry salesman
                               (\<lambda>e. e\<lparr>se_potential := se_potential e + 1\<rparr>) (acc_salesmen acc),
                           acc_totalPotentialCustomers := acc_totalPotentialCustomers acc + 1\<rparr>
                  else acc)
      in if isDealt c
         then acc1\<lparr>acc_salesmen :=
                     AList.map_entry salesman
                       (\<lambda>e. e\<lparr>se_orders := se_orders e + 1\<rparr>) (acc_salesmen acc1),
                   acc_totalOrders := acc_totalOrders acc1 + 1\<rparr>
         else acc1)"

definition countPass :: "real \<Rightarrow> customer list \<Rightarrow> countAcc" where
  "countPass ptaThreshold cs =
     fold (countStep ptaThreshold) cs
       \<lparr>acc_salesmen = initSalesmen cs, acc_totalPotentialCustomers = 0, acc_totalOrders = 0\<rparr>"

text \<open>
  Third pass, for each key of \<^verbatim>\<open>salesmenAnalysis\<close>: the amounts of the deals of this
  salesperson's customers are added to \<^verbatim>\<open>totalAmount\<close> (which starts at 0 for each
  salesperson) and to \<^verbatim>\<open>totalRevenue\<close> (which runs through all of them).
\<close>

definition addDeals :: "customer list \<Rightarrow> ustring \<Rightarrow> jsnum \<Rightarrow> jsnum" where
  "addDeals cs salesman start =
     fold (\<lambda>c t. if isDealt c then addAmount t (dealAmount c) else t)
          (filter (\<lambda>c. salesmanOf c = salesman) cs) start"

definition revenuePass :: "customer list \<Rightarrow> salesmen \<Rightarrow> salesmen" where
  "revenuePass cs sa = map (\<lambda>(salesman, e). (salesman, e\<lparr>se_revenue := addDeals cs salesman (Num 0)\<rparr>)) sa"

definition totalRevenue :: "customer list \<Rightarrow> salesmen \<Rightarrow> jsnum" where
  "totalRevenue cs sa = fold (\<lambda>salesman t. addDeals cs salesman t) (map fst sa) (Num 0)"

text \<open>\<^verbatim>\<open>(a / b) * 100\<close> for two counters.\<close>

definition percentage :: "nat \<Rightarrow> nat \<Rightarrow> jsnum" where
  "percentage a b = jsmul (jsdiv (Num (real a)) (Num (real b))) (Num 100)"

text \<open>Fourth pass: the rate of a salesperson is set only when there is a potential customer.\<close>

definition ratePass :: "salesmen \<Rightarrow> salesmen" where
  "ratePass sa =
     map (\<lambda>(salesman, e).
            (salesman, if se_potential e > 0
                       then e\<lparr>se_rate := percentage (se_orders e) (se_potential e)\<rparr> else e)) sa"

definition salesmenOf :: "real \<Rightarrow> customer list \<Rightarrow> salesmen" where
  "salesmenOf ptaThreshold cs =
     ratePass (revenuePass cs (acc_salesmen (countPass ptaThreshold cs)))"

definition overallRate :: "nat \<Rightarrow> nat \<Rightarrow> jsnum" where
  \<comment> \<open>\<^verbatim>\<open>totalPotentialCustomers > 0 ? (totalOrders / totalPotentialCustomers) * 100 : 0\<close>\<close>
  "overallRate orders potential = (if potential > 0 then percentage orders potential else Num 0)"

section \<open>The monthly pass\<close>

text \<open>Decimal rendering of a number in a template string.\<close>

function showNat :: "nat \<Rightarrow> ustring" where
  "showNat n = (if n < 10 then [0x30 + n] else showNat (n div 10) @ [0x30 + n mod 10])"
  by pat_completeness auto
termination
  by (relation "measure id") auto

declare showNat.simps [simp del]

definition showInt :: "int \<Rightarrow> ustring" where
  "showInt i = (if i < 0 then 0x2D # showNat (nat (- i)) else showNat (nat i))"

definition monthKeyOf :: "jsdate \<Rightarrow> ustring" where
  \<comment> \<open>\<^verbatim>\<open>`${date.getFullYear()}Y${date.getMonth() + 1}M`\<close>, with the characters for
      year and month in the places of Y and M\<close>
  "monthKeyOf date = showInt (d_year date) @ [c_nian] @ showNat (d_month date + 1) @ [c_yue]"

definition serviceDateOf :: "customer \<Rightarrow> ustring" where
  \<comment> \<open>the cell "service date", else the cell "first visit", else the empty string\<close>
  "serviceDateOf c = orDefault (orElse (map_of c s_fuwu_riqi) (map_of c s_chuci_daodian)) []"

record MonthlyReport =
  mr_month :: ustring
  mr_year :: int
  mr_newCustomers :: nat
  mr_completedDeals :: nat
  mr_conversionRate :: jsnum
  mr_totalAmount :: jsnum
  mr_averageAmount :: jsnum

type_synonym monthly = "(ustring \<times> MonthlyReport) list"

definition monthlyStep :: "engine_parse \<Rightarrow> real \<Rightarrow> customer \<Rightarrow> monthly \<Rightarrow> monthly" where
  "monthlyStep gp ptaThreshold c md =
     (let serviceDate = serviceDateOf c in
      if serviceDate = [] then md
      else case gp serviceDate of
        None \<Rightarrow> md
      | Some date \<Rightarrow>
          let monthKey = monthKeyOf date;
              md1 = (if map_of md monthKey = None
                     then AList.update monthKey
                            \<lparr>mr_month = monthKey, mr_year = d_year date, mr_newCustomers = 0,
                             mr_completedDeals = 0, mr_conversionRate = Num 0,
                             mr_totalAmount = Num 0, mr_averageAmount = Num 0\<rparr> md
                     else md);
              isPotential = potentialWith ptaThreshold c (isDealtClinic c);
              md2 = (if isPotential
                     then AList.map_entry monthKey
                            (\<lambda>e. e\<lparr>mr_newCustomers := mr_newCustomers e + 1\<rparr>) md1
                     else md1)
          in if isDealtMonthly c
             then AList.map_entry monthKey
                    (\<lambda>e. e\<lparr>mr_completedDeals := mr_completedDeals e + 1,
                            mr_totalAmount := addAmount (mr_totalAmount e) (dealAmount c)\<rparr>) md2
             else md2)"

definition monthlyDerive :: "MonthlyReport \<Rightarrow> MonthlyReport" where
  "monthlyDerive e =
     (let e1 = (if mr_newCustomers e > 0
                then e\<lparr>mr_conversionRate := percentage (mr_completedDeals e) (mr_newCustomers e)\<rparr>
                else e)
      in if mr_completedDeals e1 > 0
         then e1\<lparr>mr_averageAmount := jsdiv (mr_totalAmount e1) (Num (real (mr_completedDeals e1)))\<rparr>
         else e1)"

text \<open>
  \<^verbatim>\<open>parseInt(a.month.replace(/\d+Y(\d+)M/, '$1'))\<close> (Y and M as above) on a label built by
  \<^const>\<open>monthKeyOf\<close>: the month, negated when the year is negative (the minus sign is
  not part of the match and stays in front of the month).
\<close>

definition monthOfLabel :: "ustring \<Rightarrow> int" where
  "monthOfLabel label =
     (let neg = (take 1 label = [0x2D]);
          body = (if neg then drop 1 label else label);
          m = int (digitsVal (takeWhile isDigit (drop 1 (dropWhile isDigit body))))
      in if neg then - m else m)"

text \<open>
  The comparator orders by year, then by the month read from the label. \<^verbatim>\<open>sort\<close> is
  stable, as \<^const>\<open>sort_key\<close> is.
\<close>

definition sortedMonthlyData :: "engine_parse \<Rightarrow> real \<Rightarrow> customer list \<Rightarrow> MonthlyReport list" where
  "sortedMonthlyData gp ptaThreshold cs =
     sort_key (\<lambda>e. (mr_year e, monthOfLabel (mr_month e)))
       (map (monthlyDerive \<circ> snd) (fold (monthlyStep gp ptaThreshold) cs []))"

section \<open>The clinic, store and hearing-screening passes\<close>

record clinicEntry =
  ce_clinic :: ustring
  ce_total :: nat
  ce_potential :: nat
  ce_dealt :: nat
  ce_conversionRate :: jsnum
  ce_totalAmount :: jsnum

definition clinicStep ::
  "real \<Rightarrow> customer \<Rightarrow> (ustring \<times> clinicEntry) list \<Rightarrow> (ustring \<times> clinicEntry) list" where
  "clinicStep ptaThreshold c cl =
     (let clinicName = trim (orDefault (map_of c s_zhensuo_mingcheng) []) in
      if clinicName = [] then cl
      else
        let cl1 = (if map_of cl clinicName = None
                   then AList.update clinicName
                          \<lparr>ce_clinic = clinicName, ce_total = 0, ce_potential = 0, ce_dealt = 0,
                           ce_conversionRate = Num 0, ce_totalAmount = Num 0\<rparr> cl
                   else cl);
            cl2 = AList.map_entry clinicName (\<lambda>e. e\<lparr>ce_total := ce_total e + 1\<rparr>) cl1;
            cl3 = (if potentialWith ptaThreshold c (isDealtClinic c)
                   then AList.map_entry clinicName
                          (\<lambda>e. e\<lparr>ce_potential := ce_potential e + 1\<rparr>) cl2
                   else cl2)
        in if isDealtClinic c
           then AList.map_entry clinicName
                  (\<lambda>e. e\<lparr>ce_dealt := ce_dealt e + 1,
                          ce_totalAmount := addAmount (ce_totalAmount e) (dealAmount c)\<rparr>) cl3
           else cl3)"

definition clinicDerive :: "clinicEntry \<Rightarrow> clinicEntry" where
  "clinicDerive e =
     e\<lparr>ce_conversionRate := (if ce_total e > 0 then percentage (ce_dealt e) (ce_total e) else Num 0)\<rparr>"

text \<open>\<^verbatim>\<open>sort((a,b) => b.total - a.total)\<close>: descending by \<^verbatim>\<open>total\<close>, stable.\<close>

definition clinicArray :: "real \<Rightarrow> customer list \<Rightarrow> clinicEntry list" where
  "clinicArray ptaThreshold cs =
     sort_key (\<lambda>e. - int (ce_total e))
       (map (clinicDerive \<circ> snd) (fold (clinicStep ptaThreshold) cs []))"

record storeEntry =
  so_store :: ustring
  so_total :: nat
  so_potential :: nat

definition storeStep ::
  "real \<Rightarrow> customer \<Rightarrow> (ustring \<times> storeEntry) list \<Rightarrow> (ustring \<times> storeEntry) list" where
  "storeStep ptaThreshold c ss =
     (case find (\<lambda>k. str_includes k s_menshi \<and> str_includes k s_zidai) (map fst c) of
        None \<Rightarrow> ss
      | Some storeKey \<Rightarrow>
          let storeNameRaw = trim (orDefault (map_of c storeKey) []) in
          if storeNameRaw = [] \<or> storeNameRaw = s_hash_NA then ss
          else
            let ss1 = (if map_of ss storeNameRaw = None
                       then AList.update storeNameRaw
                              \<lparr>so_store = storeNameRaw, so_total = 0, so_potential = 0\<rparr> ss
                       else ss);
                ss2 = AList.map_entry storeNameRaw (\<lambda>e. e\<lparr>so_total := so_total e + 1\<rparr>) ss1
            in if potentialWith ptaThreshold c (isDealtClinic c)
               then AList.map_entry storeNameRaw
                      (\<lambda>e. e\<lparr>so_potential := so_potential e + 1\<rparr>) ss2
               else ss2)"

definition storeArray :: "real \<Rightarrow> customer list \<Rightarrow> storeEntry list" where
  "storeArray ptaThreshold cs =
     sort_key (\<lambda>e. - int (so_total e)) (map snd (fold (storeStep ptaThreshold) cs []))"

record hearingEntry =
  he_month :: ustring
  he_year :: int
  he_total :: nat
  he_potential :: nat
  he_dealt :: nat
  he_conversionRate :: jsnum
  he_totalAmount :: jsnum

definition hearingStep ::
  "engine_parse \<Rightarrow> real \<Rightarrow> customer \<Rightarrow> (ustring \<times> hearingEntry) list \<Rightarrow>
   (ustring \<times> hearingEntry) list" where
  "hearingStep gp ptaThreshold c hs =
     (let sourceVal = orDefault (orElse (map_of c s_guke_laiyuan) (map_of c s_guke_laiyuan_multi)) []
      in
      if \<not> str_includes sourceVal s_tingshai then hs
      else let serviceDate = serviceDateOf c in
        if serviceDate = [] then hs
        else case gp serviceDate of
          None \<Rightarrow> hs
        | Some date \<Rightarrow>
            let monthKey = monthKeyOf date;
                hs1 = (if map_of hs monthKey = None
                       then AList.update monthKey
                              \<lparr>he_month = monthKey, he_year = d_year date, he_total = 0,
                               he_potential = 0, he_dealt = 0, he_conversionRate = Num 0,
                               he_totalAmount = Num 0\<rparr> hs
                       else hs);
                hs2 = AList.map_entry monthKey (\<lambda>e. e\<lparr>he_total := he_total e + 1\<rparr>) hs1;
                hs3 = (if potentialWith ptaThreshold c (isDealtHS c)
                       then AList.map_entry monthKey
                              (\<lambda>e. e\<lparr>he_potential := he_potential e + 1\<rparr>) hs2
                       else hs2)
            in if isDealtHS c
               then AList.map_entry monthKey
                      (\<lambda>e. e\<lparr>he_dealt := he_dealt e + 1,
                              he_totalAmount := addAmount (he_totalAmount e) (dealAmount c)\<rparr>) hs3
               else hs3)"

definition hearingDerive :: "hearingEntry \<Rightarrow> hearingEntry" where
  "hearingDerive e =
     e\<lparr>he_conversionRate := (if he_total e > 0 then percentage (he_dealt e) (he_total e) else Num 0)\<rparr>"

definition hearingArray :: "engine_parse \<Rightarrow> real \<Rightarrow> customer list \<Rightarrow> hearingEntry list" where
  "hearingArray gp ptaThreshold cs =
     sort_key (\<lambda>e. (he_year e, monthOfLabel (he_month e)))
       (map (hearingDerive \<circ> snd) (fold (hearingStep gp ptaThreshold) cs []))"

section \<open>The component state and \<^verbatim>\<open>performCustomerAnalysis\<close>\<close>

record CustomerAnalysis =
  ca_monthlyData :: "MonthlyReport list"
  ca_totalCustomers :: nat
  ca_totalCompletedDeals :: nat
  ca_totalAmount :: jsnum
  ca_overallConversionRate :: jsnum
  ca_earliest :: ustring
  ca_latest :: ustring

definition customerAnalysisOf :: "engine_parse \<Rightarrow> real \<Rightarrow> customer list \<Rightarrow> CustomerAnalysis" where
  "customerAnalysisOf gp ptaThreshold cs =
     (let acc = countPass ptaThreshold cs in
      \<lparr>ca_monthlyData = sortedMonthlyData gp ptaThreshold cs,
       ca_totalCustomers = acc_totalPotentialCustomers acc,
       ca_totalCompletedDeals = acc_totalOrders acc,
       ca_totalAmount = totalRevenue cs (acc_salesmen acc),
       ca_overallConversionRate =
         overallRate (acc_totalOrders acc) (acc_totalPotentialCustomers acc),
       ca_earliest = (case cs of [] \<Rightarrow> [] | c # _ \<Rightarrow> serviceDateOf c),
       ca_latest = (case cs of [] \<Rightarrow> [] | _ # _ \<Rightarrow> serviceDateOf (last cs))\<rparr>)"

text \<open>
  The part of the React state that \<^verbatim>\<open>performCustomerAnalysis\<close> reads and writes. A
  state variable that is \<^verbatim>\<open>null\<close> is \<open>None\<close>; \<open>sheetData = None\<close> also stands for sheet
  data without \<^verbatim>\<open>values\<close>.
\<close>

record appState =
  sheetData :: "grid option"
  dateRange :: DateRange
  ptaThreshold :: real
  error :: ustring
  customerAnalysis :: "CustomerAnalysis option"
  salesmenAnalysis :: "salesmen option"
  clinicAnalysis :: "clinicEntry list option"
  storeReferralAnalysis :: "storeEntry list option"
  hearingScreeningAnalysis :: "hearingEntry list option"

text \<open>
  The callback, with the state passed explicitly. It returns without a change when there
  are fewer than two rows; it sets \<^verbatim>\<open>error\<close> and returns when no header names a date;
  it sets the five results when at least one row passed the date filter, and changes
  nothing otherwise (everything after the loop is inside \<^verbatim>\<open>if (filteredRows.length > 0)\<close>).
  The source calls \<^verbatim>\<open>setCustomerAnalysis\<close> twice, first with the totals alone and then
  with the whole result; the state after the callback has the second value.
\<close>

definition performCustomerAnalysis :: "engine_parse \<Rightarrow> appState \<Rightarrow> appState" where
  "performCustomerAnalysis gp st =
     (case sheetData st of
        None \<Rightarrow> st
      | Some values \<Rightarrow>
          if length values < 2 then st
          else (case findIndex isDateHeader (hd values) of
                  None \<Rightarrow> st\<lparr>error := s_error_no_date\<rparr>
                | Some dateColumnIndex \<Rightarrow>
                    let rows = filteredRows gp (dateRange st) values dateColumnIndex in
                    if length rows > 0
                    then let cs = customersArray rows; thr = ptaThreshold st in
                      st\<lparr>customerAnalysis := Some (customerAnalysisOf gp thr cs),
                         salesmenAnalysis := Some (salesmenOf thr cs),
                         clinicAnalysis := Some (clinicArray thr cs),
                         storeReferralAnalysis := Some (storeArray thr cs),
                         hearingScreeningAnalysis := Some (hearingArray gp thr cs)\<rparr>
                    else st))"

section \<open>Example inputs\<close>

text \<open>A string of ASCII characters as code units.\<close>

definition ascii :: "string \<Rightarrow> ustring" where
  "ascii s = map of_char s"

definition s_wang_xiaoming :: ustring where
  \<comment> \<open>the name U+738B U+5C0F U+660E\<close>
  "s_wang_xiaoming = [0x738B, 0x5C0F, 0x660E]"

definition s_zuoer_PTA :: ustring where
  \<comment> \<open>the header U+5DE6 U+8033 'PTA' ("left ear PTA")\<close>
  "s_zuoer_PTA = [0x5DE6, 0x8033, 0x50, 0x54, 0x41]"

definition s_youer_PTA :: ustring where
  \<comment> \<open>the header U+53F3 U+8033 'PTA' ("right ear PTA")\<close>
  "s_youer_PTA = [0x53F3, 0x8033, 0x50, 0x54, 0x41]"

definition headersA :: "ustring list" where
  "headersA = [s_chuci_daodian, s_shifou_chengjiao, s_chengjiao_jine, s_zuoer_PTA, s_youer_PTA,
               s_zhu_tinglishi]"

text \<open>Scenario A: one row, first visit on 2024/03/15, a deal of 15000, PTA 50 and 20.\<close>

definition gridA :: grid where
  "gridA = [headersA,
            [ascii ''2024/03/15'', s_shi, ascii ''15000'', ascii ''50'', ascii ''20'',
             s_wang_xiaoming]]"

definition customerA :: customer where
  "customerA = [(s_chuci_daodian, ascii ''2024/03/15''), (s_shifou_chengjiao, s_shi),
                (s_chengjiao_jine, ascii ''15000''), (s_zuoer_PTA, ascii ''50''),
                (s_youer_PTA, ascii ''20''), (s_zhu_tinglishi, s_wang_xiaoming)]"

text \<open>Scenario B: the same row with the date 2023/03/15.\<close>

definition gridB :: grid where
  "gridB = [headersA,
            [ascii ''2023/03/15'', s_shi, ascii ''15000'', ascii ''50'', ascii ''20'',
             s_wang_xiaoming]]"

text \<open>The state of the component before the first analysis, for a sheet, a window and a threshold.\<close>

definition freshState :: "grid \<Rightarrow> DateRange \<Rightarrow> real \<Rightarrow> appState" where
  "freshState values dr thr =
     \<lparr>sheetData = Some values, dateRange = dr, ptaThreshold = thr, error = [],
      customerAnalysis = None, salesmenAnalysis = None, clinicAnalysis = None,
      storeReferralAnalysis = None, hearingScreeningAnalysis = None\<rparr>"

definition year2024 :: DateRange where
  "year2024 = \<lparr>startYear = 2024, startMonth = 1, endYear = 2024, endMonth = 12\<rparr>"

definition march2024 :: DateRange where
  "march2024 = \<lparr>startYear = 2024, startMonth = 3, endYear = 2024, endMonth = 3\<rparr>"

text \<open>
  A sample of the engine's \<^verbatim>\<open>new Date(string)\<close> for the examples: the local dates
  that current engines give for these two strings, Invalid Date for every other string.
\<close>

definition sampleEngineParse :: engine_parse where
  "sampleEngineParse s =
     (if s = ascii ''2024/03/15''
      then Some \<lparr>d_year = 2024, d_month = 2, d_day = 15, d_time = 0\<rparr>
      else if s = ascii ''March 31, 2024 10:00''
      then Some \<lparr>d_year = 2024, d_month = 2, d_day = 31, d_time = 36000000\<rparr>
      else None)"

text \<open>
  The state after the analysis of scenario A, with the sheet then replaced by that of
  scenario B: the state in which a second analysis starts.
\<close>

definition staleStateB :: appState where
  "staleStateB =
     (performCustomerAnalysis sampleEngineParse (freshState gridA year2024 40))
       \<lparr>sheetData := Some gridB\<rparr>"

definition s_xingming :: ustring where
  \<comment> \<open>the header U+59D3 U+540D ("name")\<close>
  "s_xingming = [0x59D3, 0x540D]"

text \<open>A sheet with nothing but a header row, and one with a data row; neither has a date column.\<close>

definition gridHeaderOnly :: grid where
  "gridHeaderOnly = [[s_xingming]]"

definition gridNoDate :: grid where
  "gridNoDate = [[s_xingming], [s_wang_xiaoming]]"

text \<open>
  A row whose date is written with the characters for year, month and day: first visit
  2024 U+5E74 3 U+6708 15 U+65E5, left ear PTA 50, a clinic, a store and the
  hearing-screening source, no deal.
\<close>

definition dateC :: ustring where
  "dateC = ascii ''2024'' @ [c_nian] @ ascii ''3'' @ [c_yue] @ ascii ''15'' @ [c_ri]"

definition gridC :: grid where
  "gridC = [[s_chuci_daodian, s_zuoer_PTA, s_zhensuo_mingcheng, s_menshi @ s_zidai, s_guke_laiyuan],
            [dateC, ascii ''50'', ascii ''Clinic'', ascii ''Store'', s_tingshai]]"

definition customerC :: customer where
  "customerC = [(s_chuci_daodian, dateC), (s_zuoer_PTA, ascii ''50''),
                (s_zhensuo_mingcheng, ascii ''Clinic''), (s_menshi @ s_zidai, ascii ''Store''),
                (s_guke_laiyuan, s_tingshai)]"

text \<open>A row dated on the last day of March 2024, with a time of day, in words.\<close>

definition gridLastDay :: grid where
  "gridLastDay = [[s_chuci_daodian, s_zuoer_PTA], [ascii ''March 31, 2024 10:00'', ascii ''50'']]"

text \<open>Customers for the classification examples.\<close>

definition customerS :: customer where
  \<comment> \<open>first visit 2024/03/15, status "deal already closed"\<close>
  "customerS = [(s_chuci_daodian, ascii ''2024/03/15''), (s_zhuangtai, s_yi_chengjiao)]"

definition customerL :: customer where
  \<comment> \<open>"has a device on loan?" answered "yes"\<close>
  "customerL = [(s_shifou_you_jieji, s_shi)]"

definition customerU :: customer where
  \<comment> \<open>no PTA value that can be read, no deal\<close>
  "customerU = [(s_zuoer_PTA, ascii ''n/a''), (s_youer_PTA, [])]"

definition customerNA :: customer where
  \<comment> \<open>a deal whose amount cell has no digit\<close>
  "customerNA = [(s_shifou_chengjiao, s_shi), (s_chengjiao_jine, ascii ''N/A'')]"

definition customerP :: customer where
  \<comment> \<open>left ear 35 under a header in lower case with a unit, right ear 45.5, no deal marker\<close>
  "customerP = [(s_zuo @ s_er @ ascii '' pta (dB)'', ascii ''35 dB''), (s_youer_PTA, ascii ''45.5'')]"

definition customerT :: customer where
  \<comment> \<open>a left-ear header that ends in p, t, U+1E9A: its upper-case form ends in P, T, A, U+02BE\<close>
  "customerT = [(s_zuo @ s_er @ [0x70, 0x74, 0x1E9A], ascii ''60'')]"

text \<open>
  A row whose only deal marker is the cell "device on loan?" with the answer "yes": first
  visit 2024/03/15, a clinic and a store, no PTA column.
\<close>

definition gridJ :: grid where
  "gridJ = [[s_chuci_daodian, s_shifou_jieji, s_zhensuo_mingcheng, s_menshi @ s_zidai],
            [ascii ''2024/03/15'', s_shi, ascii ''Clinic'', ascii ''Store'']]"

definition customerJ :: customer where
  "customerJ = [(s_chuci_daodian, ascii ''2024/03/15''), (s_shifou_jieji, s_shi),
                (s_zhensuo_mingcheng, ascii ''Clinic''), (s_menshi @ s_zidai, ascii ''Store'')]"

text \<open>
  Two deals of the same month, the first of 10000; the amount cell of the second has no
  digit in one sheet and is 0 in the other.
\<close>

definition headersN :: "ustring list" where
  "headersN = [s_chuci_daodian, s_shifou_chengjiao, s_chengjiao_jine]"

definition gridN :: grid where
  "gridN = [headersN,
            [ascii ''2024/03/15'', s_shi, ascii ''10000''],
            [ascii ''2024/03/15'', s_shi, ascii ''N/A'']]"

definition gridO :: grid where
  "gridO = [headersN,
            [ascii ''2024/03/15'', s_shi, ascii ''10000''],
            [ascii ''2024/03/15'', s_shi, ascii ''0'']]"

definition dealWithAmount :: "ustring \<Rightarrow> customer" where
  \<comment> \<open>the customer object of a row of these two sheets\<close>
  "dealWithAmount amount =
     [(s_chuci_daodian, ascii ''2024/03/15''), (s_shifou_chengjiao, s_shi),
      (s_chengjiao_jine, amount)]"

definition customerZ :: customer where
  \<comment> \<open>first visit 2024/03/15, a clinic and the hearing-screening source; no PTA, no deal\<close>
  "customerZ = [(s_chuci_daodian, ascii ''2024/03/15''), (s_zhensuo_mingcheng, ascii ''Clinic''),
                (s_guke_laiyuan, s_tingshai)]"

section \<open>Invariants of the folds\<close>

text \<open>
  While the counting pass runs, no entry has more orders than potential customers, and the
  rate still has its initial value.
\<close>

definition countInv :: "salesmanEntry \<Rightarrow> bool" where
  "countInv e \<longleftrightarrow> se_orders e \<le> se_potential e \<and> se_rate e = Num 0"

text \<open>After the rate pass the rate is the one of the final counters.\<close>

definition rateInv :: "salesmanEntry \<Rightarrow> bool" where
  "rateInv e \<longleftrightarrow>
     se_orders e \<le> se_potential e \<and>
     se_rate e = (if se_potential e > 0 then percentage (se_orders e) (se_potential e) else Num 0)"

text \<open>
  While the monthly fold runs, rate and average still have their initial value and the sum
  of the amounts is a finite number.
\<close>

definition monthlyInv :: "MonthlyReport \<Rightarrow> bool" where
  "monthlyInv e \<longleftrightarrow>
     mr_conversionRate e = Num 0 \<and> mr_averageAmount e = Num 0 \<and> (\<exists>v. mr_totalAmount e = Num v)"

definition monthlyDerived :: "MonthlyReport \<Rightarrow> bool" where
  "monthlyDerived e \<longleftrightarrow>
     mr_conversionRate e =
       (if mr_newCustomers e > 0
        then Num (real (mr_completedDeals e) / real (mr_newCustomers e) * 100) else Num 0) \<and>
     (\<exists>v. mr_totalAmount e = Num v \<and>
        mr_averageAmount e =
          (if mr_completedDeals e > 0 then Num (v / real (mr_completedDeals e)) else Num 0))"

text \<open>
  A date at local midnight with a day that exists in its month: what \<^verbatim>\<open>new Date(y, m, d)\<close>
  gives.
\<close>

definition validMidnight :: "jsdate \<Rightarrow> bool" where
  "validMidnight date \<longleftrightarrow>
     d_time date = 0 \<and> 1 \<le> d_day date \<and>
     d_day date \<le> daysInMonth (d_year date) (d_month date) \<and> d_month date \<le> 11"

text \<open>The row reaches the end of a turn of the loop: none of its \<^verbatim>\<open>continue\<close> is taken.\<close>

definition rowPasses :: "engine_parse \<Rightarrow> DateRange \<Rightarrow> nat \<Rightarrow> ustring list \<Rightarrow> bool" where
  "rowPasses gp dr dateColumnIndex row \<longleftrightarrow>
     (case cell row dateColumnIndex of
        None \<Rightarrow> False
      | Some raw \<Rightarrow>
          raw \<noteq> [] \<and> trim raw \<noteq> [] \<and>
          (case parseRowDate gp (trim raw) of None \<Rightarrow> False | Some date \<Rightarrow> inWindow dr date))"

section \<open>Evaluation of the string literals\<close>

lemmas string_consts =
  s_chuci_daodian_def s_riqi_def s_Date_def s_chengjiao_def s_zhuangtai_def s_Status_def
  s_jine_def s_Amount_def s_jiage_def s_zuo_def s_you_def s_er_def s_PTA_def
  s_zhu_tinglishi_def s_tinglishi_def s_weizhi_yewuyuan_def s_shifou_chengjiao_def
  s_shifou_jieji_def s_shifou_you_jieji_def s_shi_def s_TRUE_def s_yi_chengjiao_def
  s_chengjiao_jine_def s_yingyee_def s_fuwu_riqi_def s_zhensuo_mingcheng_def s_menshi_def
  s_zidai_def s_hash_NA_def s_guke_laiyuan_def s_guke_laiyuan_multi_def s_tingshai_def
  c_nian_def c_yue_def c_ri_def

lemmas example_consts =
  ascii_def s_wang_xiaoming_def s_zuoer_PTA_def s_youer_PTA_def s_xingming_def dateC_def

section \<open>Association lists\<close>

lemma map_entry_twice:
  "AList.map_entry k f (AList.map_entry k g al) = AList.map_entry k (f \<circ> g) al"
  by (induction al) auto

lemma map_entry_all:
  assumes "\<forall>x\<in>set al. P (snd x)" "\<And>e. P e \<Longrightarrow> P (f e)"
  shows "\<forall>x\<in>set (AList.map_entry k f al). P (snd x)"
  using assms(1) by (induction al) (auto simp: assms(2))

lemma update_all:
  assumes "\<forall>x\<in>set al. P (snd x)" "P v"
  shows "\<forall>x\<in>set (AList.update k v al). P (snd x)"
  using assms by (induction al) auto

lemma cond_map_entry_all:
  assumes "\<forall>x\<in>set al. P (snd x)" "\<And>e. P e \<Longrightarrow> P (f e)"
  shows "\<forall>x\<in>set (if b then AList.map_entry k f al else al). P (snd x)"
  using map_entry_all [OF assms, where k = k] assms(1) by simp

lemma cond_update_all:
  assumes "\<forall>x\<in>set al. P (snd x)" "P v"
  shows "\<forall>x\<in>set (if b then AList.update k v al else al). P (snd x)"
  using update_all [OF assms, where k = k] assms(1) by simp

lemma map_entries_all:
  assumes "\<forall>x\<in>set al. P (snd x)" "\<And>k e. P e \<Longrightarrow> Q (g k e)"
  shows "\<forall>x\<in>set (map (\<lambda>(k, e). (k, g k e)) al). Q (snd x)"
  using assms by auto

lemma findIndex_None_iff: "findIndex P xs = None \<longleftrightarrow> (\<forall>x\<in>set xs. \<not> P x)"
  by (induction xs) auto

section \<open>The numeric parser\<close>

text \<open>The parser gives NaN or a finite number that is not negative, never an infinity.\<close>

lemma parseFloat_cases: "parseFloat s = NaN \<or> (\<exists>v. parseFloat s = Num v \<and> 0 \<le> v)"
  by (simp add: parseFloat_def Let_def)

lemma parseAmount_cases: "parseAmount v = NaN \<or> (\<exists>x. parseAmount v = Num x \<and> 0 \<le> x)"
  using parseFloat_cases by (auto simp: parseAmount_def split: option.splits)

lemma parseNumber_cases: "parseNumber v = NaN \<or> (\<exists>x. parseNumber v = Num x \<and> 0 \<le> x)"
  using parseFloat_cases by (auto simp: parseNumber_def split: option.splits)

lemma getEarPTA_cases: "getEarPTA c e = NaN \<or> (\<exists>x. getEarPTA c e = Num x \<and> 0 \<le> x)"
  using parseNumber_cases by (auto simp: getEarPTA_def split: option.splits)

lemma dealAmount_cases: "dealAmount c = NaN \<or> (\<exists>x. dealAmount c = Num x \<and> 0 \<le> x)"
  unfolding dealAmount_def by (rule parseAmount_cases)

lemma jsgt_Num_iff:
  "a = NaN \<or> (\<exists>x. a = Num x) \<Longrightarrow> jsgt a (Num t) \<longleftrightarrow> (\<exists>v. a = Num v \<and> t < v)"
  by auto

lemma addAmount_NaN: "addAmount t NaN = t"
  by (simp add: addAmount_def)

lemma addAmount_Num: "\<exists>v'. addAmount (Num v) (dealAmount c) = Num v'"
  using dealAmount_cases [of c] by (auto simp: addAmount_def)

lemma percentage_Num: "0 < b \<Longrightarrow> percentage a b = Num (real a / real b * 100)"
  by (simp add: percentage_def)

lemma parseAmount_NT: "parseAmount (Some (ascii ''NT$152,000.00'')) = Num 152000"
  by (simp add: ascii_def parseAmount_def cleaned_def parseFloat_def isDigit_def digitsVal_def)

text \<open>A customer whose amount is NaN leaves every sum of amounts as it was.\<close>

lemma addDeals_NaN:
  assumes "dealAmount c = NaN"
  shows "addDeals (c # cs) k t = addDeals cs k t"
  by (simp add: addDeals_def assms addAmount_NaN)

lemma monthlyStep_NaN:
  assumes "dealAmount c = NaN" "map_of (monthlyStep gp thr c md) k = Some e"
  shows "mr_totalAmount e = (case map_of md k of None \<Rightarrow> Num 0 | Some e0 \<Rightarrow> mr_totalAmount e0)"
  using assms(2)
  by (auto simp: monthlyStep_def Let_def assms(1) addAmount_NaN AList.map_of_map_entry
        AList.update_conv' split: option.splits if_splits)

lemma clinicStep_NaN:
  assumes "dealAmount c = NaN" "map_of (clinicStep thr c cl) k = Some e"
  shows "ce_totalAmount e = (case map_of cl k of None \<Rightarrow> Num 0 | Some e0 \<Rightarrow> ce_totalAmount e0)"
  using assms(2)
  by (auto simp: clinicStep_def Let_def assms(1) addAmount_NaN AList.map_of_map_entry
        AList.update_conv' split: option.splits if_splits)

lemma hearingStep_NaN:
  assumes "dealAmount c = NaN" "map_of (hearingStep gp thr c hs) k = Some e"
  shows "he_totalAmount e = (case map_of hs k of None \<Rightarrow> Num 0 | Some e0 \<Rightarrow> he_totalAmount e0)"
  using assms(2)
  by (auto simp: hearingStep_def Let_def assms(1) addAmount_NaN AList.map_of_map_entry
        AList.update_conv' split: option.splits if_splits)

lemma dealAmount_NA: "dealAmount customerNA = NaN"
  by (simp add: dealAmount_def customerNA_def orElse_def parseAmount_def cleaned_def
        parseFloat_def isDigit_def string_consts ascii_def)

section \<open>The deal test in the passes\<close>

lemma flagsS: "isDealt customerS" "\<not> isDealtMonthly customerS" "isDealtClinic customerS"
  by (simp_all add: isDealt_def isDealtMonthly_def isDealtClinic_def cellIs_def customerS_def
        string_consts example_consts)

lemma flagsL:
  "\<not> isDealt customerL" "\<not> isDealtClinic customerL" "\<not> isDealtMonthly customerL"
  "\<not> isDealtHS customerL"
  by (simp_all add: isDealt_def isDealtClinic_def isDealtMonthly_def isDealtHS_def cellIs_def
        customerL_def string_consts)

lemma salesmanS: "salesmanOf customerS = s_weizhi_yewuyuan"
  by (simp add: salesmanOf_def customerS_def orElse_def orDefault_def string_consts example_consts)

lemma serviceDateS: "serviceDateOf customerS = ascii ''2024/03/15''"
  by (simp add: serviceDateOf_def customerS_def orElse_def orDefault_def string_consts)

lemma countPassS: "acc_totalOrders (countPass 40 [customerS]) = 1"
  by (simp add: countPass_def initSalesmen_def initStep_def countStep_def salesmanS flagsS
        isPotentialCustomer_def potentialWith_def)

lemma sample_20240315:
  "sampleEngineParse (ascii ''2024/03/15'') =
     Some \<lparr>d_year = 2024, d_month = 2, d_day = 15, d_time = 0\<rparr>"
  by (simp add: sampleEngineParse_def)

lemma ascii_date_nonempty: "ascii ''2024/03/15'' \<noteq> []" "ascii ''2023/03/15'' \<noteq> []"
  by (simp_all add: ascii_def)

lemma monthlyS:
  "map mr_completedDeals (sortedMonthlyData sampleEngineParse 40 [customerS]) = [0]"
  "map mr_newCustomers (sortedMonthlyData sampleEngineParse 40 [customerS]) = [1]"
  by (simp_all add: sortedMonthlyData_def monthlyStep_def serviceDateS sample_20240315 flagsS
        potentialWith_def monthlyDerive_def percentage_def Let_def ascii_date_nonempty)

text \<open>
  Claim C1, evaluated at two records. A record whose status cell says "deal already
  closed" is a deal for the salesperson passes, and so for the global count of completed
  deals, but not for the monthly pass, whose bucket gets it as a new customer with no
  completed deal. A record whose "has a device on loan?" cell says "yes" is a deal for
  none of the passes.
\<close>

theorem deal_test_differs_between_passes:
  "isDealt customerS \<and> \<not> isDealtMonthly customerS \<and>
   acc_totalOrders (countPass 40 [customerS]) = 1 \<and>
   map mr_completedDeals (sortedMonthlyData sampleEngineParse 40 [customerS]) = [0] \<and>
   map mr_newCustomers (sortedMonthlyData sampleEngineParse 40 [customerS]) = [1] \<and>
   \<not> isDealt customerL \<and> \<not> isDealtClinic customerL \<and> \<not> isDealtMonthly customerL \<and>
   \<not> isDealtHS customerL"
  by (simp add: flagsS flagsL countPassS monthlyS)

section \<open>Dates and the window\<close>

lemma daysInMonth_bounds: "28 \<le> daysInMonth y m \<and> daysInMonth y m \<le> 31"
  by (simp add: daysInMonth_def)

lemma daysInMonth_ge1: "Suc 0 \<le> daysInMonth y m"
  by (simp add: daysInMonth_def)

lemma rollDay_small:
  "d \<le> daysInMonth y m \<Longrightarrow> rollDay y m d = \<lparr>d_year = y, d_month = m, d_day = d, d_time = 0\<rparr>"
  by (subst rollDay.simps) simp

lemma rollDay_valid: "1 \<le> d \<Longrightarrow> m \<le> 11 \<Longrightarrow> validMidnight (rollDay y m d)"
proof (induction y m d rule: rollDay.induct)
  case (1 y m d)
  show ?case
  proof (cases "daysInMonth y m < d")
    case False
    then show ?thesis
      using "1.prems" by (simp add: rollDay_small validMidnight_def)
  next
    case True
    show ?thesis
    proof (cases "11 \<le> m")
      case m: True
      have "validMidnight (rollDay (y + 1) 0 (d - daysInMonth y m))"
        using True m by (intro "1.IH"(1)) auto
      then show ?thesis
        using True m by (subst rollDay.simps) simp
    next
      case m: False
      have "validMidnight (rollDay y (Suc m) (d - daysInMonth y m))"
        using True m by (intro "1.IH"(2)) auto
      then show ?thesis
        using True m by (subst rollDay.simps) simp
    qed
  qed
qed

text \<open>Every date made from a year, a month index and a day is a real day, at midnight.\<close>

lemma mkDate_valid: "validMidnight (mkDate y mi d)"
proof (cases "d = 0")
  case True
  have "nat (mi mod 12) \<le> 11" by (simp add: nat_le_iff)
  then show ?thesis
    using True
    by (auto simp: mkDate_def Let_def validMidnight_def daysInMonth_ge1)
next
  case False
  have "nat (mi mod 12) \<le> 11" by (simp add: nat_le_iff)
  then show ?thesis
    using False by (simp add: mkDate_def Let_def rollDay_valid)
qed

lemma structural_date_valid:
  assumes "parseRowDate gp s = Some date"
    and "regex_match format0_at s \<noteq> None \<or> regex_match format1_at s \<noteq> None \<or>
         regex_match format2_at s \<noteq> None"
  shows "validMidnight date"
  using assms mkDate_valid
  by (auto simp: parseRowDate_def split: option.splits)

lemma mkDate_first:
  assumes "1 \<le> m" "m \<le> 12"
  shows "mkDate y (m - 1) 1 =
           \<lparr>d_year = fullYear y, d_month = nat (m - 1), d_day = 1, d_time = 0\<rparr>"
proof -
  have a: "(m - 1) div 12 = 0" "(m - 1) mod 12 = m - 1" using assms by auto
  have b: "1 \<le> daysInMonth (fullYear y) (nat (m - 1))"
    using daysInMonth_bounds [of "fullYear y" "nat (m - 1)"] by linarith
  have "mkDate y (m - 1) 1 = rollDay (fullYear y) (nat (m - 1)) 1"
    unfolding mkDate_def Let_def a by simp
  then show ?thesis using rollDay_small [OF b] by simp
qed

lemma mkDate_last:
  assumes "1 \<le> m" "m \<le> 12"
  shows "mkDate y m 0 =
           \<lparr>d_year = fullYear y, d_month = nat (m - 1),
            d_day = daysInMonth (fullYear y) (nat (m - 1)), d_time = 0\<rparr>"
proof (cases "m = 12")
  case True
  show ?thesis unfolding mkDate_def Let_def True by simp
next
  case False
  then have a: "m div 12 = 0" "m mod 12 = m" using assms by auto
  have b: "nat m \<noteq> 0" "nat m - 1 = nat (m - 1)" using assms by auto
  show ?thesis unfolding mkDate_def Let_def a using b by simp
qed

lemma date_lt_right:
  "date_lt a \<lparr>d_year = y, d_month = m, d_day = dd, d_time = t\<rparr> \<longleftrightarrow>
     d_year a < y \<or> (d_year a = y \<and> (d_month a < m \<or> (d_month a = m \<and>
       (d_day a < dd \<or> (d_day a = dd \<and> d_time a < t)))))"
  by (simp add: date_lt_def)

lemma date_lt_left:
  "date_lt \<lparr>d_year = y, d_month = m, d_day = dd, d_time = t\<rparr> b \<longleftrightarrow>
     y < d_year b \<or> (y = d_year b \<and> (m < d_month b \<or> (m = d_month b \<and>
       (dd < d_day b \<or> (dd = d_day b \<and> t < d_time b)))))"
  by (simp add: date_lt_def)

lemma not_before_first:
  fixes dm dd :: nat and sm dy sy :: int
  assumes "1 \<le> sm" "1 \<le> dd"
  shows "\<not> (dy < sy \<or> (dy = sy \<and> (dm < nat (sm - 1) \<or> (dm = nat (sm - 1) \<and>
           (dd < 1 \<or> (dd = 1 \<and> (t::nat) < 0)))))) \<longleftrightarrow>
         (sy < dy \<or> (sy = dy \<and> sm \<le> int dm + 1))"
proof -
  obtain k :: nat where k: "sm = int k + 1"
    using assms(1) by (metis add.commute diff_add_cancel nonneg_int_cases diff_ge_0_iff_ge)
  show ?thesis unfolding k using assms(2) by auto
qed

lemma not_after_last:
  fixes dm dd t :: nat and em dy ey :: int
  assumes "1 \<le> em" "dy = ey \<and> dm = nat (em - 1) \<longrightarrow> dd \<le> ld" "t = 0"
  shows "\<not> (ey < dy \<or> (ey = dy \<and> (nat (em - 1) < dm \<or> (nat (em - 1) = dm \<and>
           (ld < dd \<or> (ld = dd \<and> (0::nat) < t)))))) \<longleftrightarrow>
         (dy < ey \<or> (dy = ey \<and> int dm + 1 \<le> em))"
proof -
  obtain k :: nat where k: "em = int k + 1"
    using assms(1) by (metis add.commute diff_add_cancel nonneg_int_cases diff_ge_0_iff_ge)
  show ?thesis using assms(2,3) unfolding k by auto
qed

text \<open>
  The window test on a date at local midnight, which is what the three structural formats
  give (\<open>structural_date_valid\<close>): for window months from 1 to 12, the date passes exactly
  when its month is not before the start month and not after the end month.
\<close>

lemma inWindow_midnight:
  assumes sm: "1 \<le> startMonth dr" "startMonth dr \<le> 12"
      and em: "1 \<le> endMonth dr" "endMonth dr \<le> 12"
      and d: "validMidnight date"
  shows "inWindow dr date \<longleftrightarrow>
           (fullYear (startYear dr) < d_year date \<or>
            (fullYear (startYear dr) = d_year date \<and>
             startMonth dr \<le> int (d_month date) + 1)) \<and>
           (d_year date < fullYear (endYear dr) \<or>
            (d_year date = fullYear (endYear dr) \<and> int (d_month date) + 1 \<le> endMonth dr))"
proof -
  have d1: "1 \<le> d_day date" and d0: "d_time date = 0"
    and d2: "d_day date \<le> daysInMonth (d_year date) (d_month date)"
    using d by (simp_all add: validMidnight_def)
  have d3: "d_year date = fullYear (endYear dr) \<and> d_month date = nat (endMonth dr - 1) \<longrightarrow>
              d_day date \<le> daysInMonth (fullYear (endYear dr)) (nat (endMonth dr - 1))"
    using d2 by auto
  have s: "\<not> date_lt date (mkDate (startYear dr) (startMonth dr - 1) 1) \<longleftrightarrow>
             (fullYear (startYear dr) < d_year date \<or>
              (fullYear (startYear dr) = d_year date \<and>
               startMonth dr \<le> int (d_month date) + 1))"
    unfolding mkDate_first [OF sm] date_lt_right
    by (rule not_before_first [OF sm(1) d1])
  have e: "\<not> date_lt (mkDate (endYear dr) (endMonth dr) 0) date \<longleftrightarrow>
             (d_year date < fullYear (endYear dr) \<or>
              (d_year date = fullYear (endYear dr) \<and> int (d_month date) + 1 \<le> endMonth dr))"
    unfolding mkDate_last [OF em] date_lt_left
    by (rule not_after_last [OF em(1) d3 d0])
  show ?thesis
    unfolding inWindow_def Let_def de_Morgan_disj s e by (rule refl)
qed

lemma covers_march_2024:
  assumes "1 \<le> startMonth dr" "startMonth dr \<le> 12" "1 \<le> endMonth dr" "endMonth dr \<le> 12"
    and "startYear dr < 2024 \<or> (startYear dr = 2024 \<and> startMonth dr \<le> 3)"
    and "2024 < endYear dr \<or> (endYear dr = 2024 \<and> 3 \<le> endMonth dr)"
  shows "inWindow dr \<lparr>d_year = 2024, d_month = 2, d_day = 15, d_time = 0\<rparr>"
proof -
  have v: "validMidnight \<lparr>d_year = 2024, d_month = 2, d_day = 15, d_time = 0\<rparr>"
    by (simp add: validMidnight_def daysInMonth_def)
  have s: "fullYear (startYear dr) < 2024 \<or>
           (fullYear (startYear dr) = 2024 \<and> startMonth dr \<le> 3)"
    using assms(5) by (auto simp: fullYear_def)
  have e: "2024 < fullYear (endYear dr) \<or> (fullYear (endYear dr) = 2024 \<and> 3 \<le> endMonth dr)"
    using assms(6) by (auto simp: fullYear_def)
  show ?thesis
    using s e by (subst inWindow_midnight [OF assms(1-4) v]) auto
qed

lemma not_in_2024:
  assumes "startYear dr = 2024" "1 \<le> startMonth dr" "startMonth dr \<le> 12"
  shows "\<not> inWindow dr \<lparr>d_year = 2023, d_month = 2, d_day = 15, d_time = 0\<rparr>"
proof -
  have m: "mkDate 2024 (startMonth dr - 1) 1 =
             \<lparr>d_year = 2024, d_month = nat (startMonth dr - 1), d_day = 1, d_time = 0\<rparr>"
    using mkDate_first [OF assms(2,3), of 2024] by (simp add: fullYear_def)
  show ?thesis
    unfolding inWindow_def Let_def assms(1) m by (simp add: date_lt_def)
qed

text \<open>
  The customer objects are those of the rows that pass, in the order of the sheet: a row
  that does not pass is in no aggregate and in no total, which are all computed from
  \<^const>\<open>customersArray\<close>.
\<close>

lemma processRow_None_iff:
  "processRow gp dr headers dci sci aci i row = None \<longleftrightarrow> \<not> rowPasses gp dr dci row"
  by (auto simp: processRow_def rowPasses_def Let_def split: option.splits)

lemma processRow_fields:
  "processRow gp dr headers dci sci aci i row = Some rd \<Longrightarrow>
     rd_fields rd = fieldContents headers row"
  by (auto simp: processRow_def Let_def split: option.splits if_splits)

lemma map_filter_rows:
  "map rd_fields (List.map_filter (\<lambda>(i, row). processRow gp dr headers dci sci aci i row)
                    (enumerate n rows)) =
   map (fieldContents headers) (filter (rowPasses gp dr dci) rows)"
proof (induction rows arbitrary: n)
  case Nil
  then show ?case by simp
next
  case (Cons row rows)
  show ?case
  proof (cases "processRow gp dr headers dci sci aci n row")
    case None
    then show ?thesis
      using Cons.IH [of "Suc n"] processRow_None_iff [of gp dr headers dci sci aci n row]
      by simp
  next
    case (Some rd)
    then have "rowPasses gp dr dci row"
      using processRow_None_iff [of gp dr headers dci sci aci n row] by simp
    then show ?thesis
      using Some Cons.IH [of "Suc n"] processRow_fields [OF Some]
      by simp
  qed
qed

lemma customersArray_passing_rows:
  "customersArray (filteredRows gp dr values dci) =
     map (fieldContents (hd values)) (filter (rowPasses gp dr dci) (tl values))"
  unfolding customersArray_def filteredRows_def Let_def by (rule map_filter_rows)

lemma not_inWindow_lastDay_morning:
  "\<not> inWindow march2024 \<lparr>d_year = 2024, d_month = 2, d_day = 31, d_time = 36000000\<rparr>"
  by (simp add: inWindow_def march2024_def mkDate_def fullYear_def rollDay_small
        daysInMonth_def date_lt_def)

lemma inWindow_lastDay_midnight:
  "inWindow march2024 \<lparr>d_year = 2024, d_month = 2, d_day = 31, d_time = 0\<rparr>"
  by (simp add: inWindow_def march2024_def mkDate_def fullYear_def rollDay_small
        daysInMonth_def date_lt_def)

subsection \<open>The dates of the examples\<close>

lemmas date_parse_defs =
  parseRowDate_def format0_at_def format1_at_def format2_at_def isDigit_def isSep_def
  digitsVal_def mkDate_def fullYear_def rollDay_small daysInMonth_def c_nian_def c_yue_def c_ri_def

lemma parse_20240315:
  "parseRowDate gp (ascii ''2024/03/15'') =
     Some \<lparr>d_year = 2024, d_month = 2, d_day = 15, d_time = 0\<rparr>"
  by (simp add: ascii_def date_parse_defs)

lemma parse_20230315:
  "parseRowDate gp (ascii ''2023/03/15'') =
     Some \<lparr>d_year = 2023, d_month = 2, d_day = 15, d_time = 0\<rparr>"
  by (simp add: ascii_def date_parse_defs)

lemma parse_dateC:
  "parseRowDate gp dateC = Some \<lparr>d_year = 2024, d_month = 2, d_day = 15, d_time = 0\<rparr>"
  by (simp add: dateC_def ascii_def date_parse_defs)

lemma parse_lastDay:
  "parseRowDate gp (ascii ''March 31, 2024 10:00'') = gp (ascii ''March 31, 2024 10:00'')"
  by (simp add: ascii_def date_parse_defs)

lemma trim_20240315: "trim (ascii ''2024/03/15'') = ascii ''2024/03/15''"
  by (simp add: trim_def ascii_def isWhiteSpace_def)

lemma trim_20230315: "trim (ascii ''2023/03/15'') = ascii ''2023/03/15''"
  by (simp add: trim_def ascii_def isWhiteSpace_def)

lemma trim_lastDay: "trim (ascii ''March 31, 2024 10:00'') = ascii ''March 31, 2024 10:00''"
  by (simp add: trim_def ascii_def isWhiteSpace_def)

lemma trim_dateC: "trim dateC = dateC"
  by (simp add: trim_def dateC_def ascii_def isWhiteSpace_def c_nian_def c_yue_def c_ri_def)

lemma dateC_nonempty: "dateC \<noteq> []"
  by (simp add: dateC_def)

section \<open>Scenario A\<close>

lemma findIndex_date_headersA: "findIndex isDateHeader headersA = Some 0"
  by (simp add: headersA_def isDateHeader_def s_chuci_daodian_def)

lemma fieldContents_A:
  "fieldContents headersA
     [ascii ''2024/03/15'', s_shi, ascii ''15000'', ascii ''50'', ascii ''20'', s_wang_xiaoming] =
   customerA"
  by (simp add: fieldContents_def customerA_def cell_def headersA_def string_consts
        s_zuoer_PTA_def s_youer_PTA_def)

lemma flagsA:
  "isDealt customerA" "isDealtClinic customerA" "isDealtMonthly customerA" "isDealtHS customerA"
  by (simp_all add: isDealt_def isDealtClinic_def isDealtMonthly_def isDealtHS_def cellIs_def
        customerA_def string_consts s_zuoer_PTA_def s_youer_PTA_def)

lemma earsA: "getEarPTA customerA LeftEar = Num 50" "getEarPTA customerA RightEar = Num 20"
  by (simp_all add: getEarPTA_def customerA_def earLabel_def toUpperCase_def upperUnit_def parseNumber_def
        cleaned_def parseFloat_def isDigit_def digitsVal_def string_consts s_zuoer_PTA_def
        s_youer_PTA_def ascii_def)

lemma amountA: "dealAmount customerA = Num 15000"
  by (simp add: dealAmount_def customerA_def orElse_def parseAmount_def cleaned_def
        parseFloat_def isDigit_def digitsVal_def string_consts s_zuoer_PTA_def s_youer_PTA_def
        ascii_def)

lemma salesmanA: "salesmanOf customerA = s_wang_xiaoming"
  by (simp add: salesmanOf_def customerA_def orElse_def orDefault_def string_consts
        s_zuoer_PTA_def s_youer_PTA_def s_wang_xiaoming_def ascii_def)

lemma serviceDateA: "serviceDateOf customerA = ascii ''2024/03/15''"
  by (simp add: serviceDateOf_def customerA_def orElse_def orDefault_def string_consts
        s_zuoer_PTA_def s_youer_PTA_def ascii_def)

lemma potentialA: "isPotentialCustomer 40 customerA" "potentialWith 40 customerA b"
  by (simp_all add: isPotentialCustomer_def potentialWith_def earsA)

lemma showNat_digit: "n < 10 \<Longrightarrow> showNat n = [0x30 + n]"
  by (subst showNat.simps) simp

lemma showNat_step: "10 \<le> n \<Longrightarrow> showNat n = showNat (n div 10) @ [0x30 + n mod 10]"
  by (subst showNat.simps) simp

text \<open>The label of March 2024: the digits of 2024, U+5E74, the digit 3, U+6708.\<close>

lemma monthKey_2024_3:
  assumes "d_year d = 2024" "d_month d = 2"
  shows "monthKeyOf d = [0x32, 0x30, 0x32, 0x34, c_nian, 0x33, c_yue]"
  using assms by (simp add: monthKeyOf_def showInt_def showNat_step showNat_digit)

lemma countPassA:
  "countPass 40 [customerA] =
     \<lparr>acc_salesmen =
        [(s_wang_xiaoming,
          \<lparr>se_name = s_wang_xiaoming, se_orders = 1, se_potential = 1, se_rate = Num 0,
           se_revenue = Num 0\<rparr>)],
      acc_totalPotentialCustomers = 1, acc_totalOrders = 1\<rparr>"
  by (simp add: countPass_def initSalesmen_def initStep_def countStep_def salesmanA flagsA
        potentialA)

lemma salesmenA:
  "salesmenOf 40 [customerA] =
     [(s_wang_xiaoming,
       \<lparr>se_name = s_wang_xiaoming, se_orders = 1, se_potential = 1, se_rate = Num 100,
        se_revenue = Num 15000\<rparr>)]"
  by (simp add: salesmenOf_def countPassA revenuePass_def ratePass_def addDeals_def salesmanA
        flagsA amountA addAmount_def percentage_def)

lemma totalRevenueA: "totalRevenue [customerA] [(s_wang_xiaoming, e)] = Num 15000"
  by (simp add: totalRevenue_def addDeals_def salesmanA flagsA amountA addAmount_def)

lemma monthlyA:
  assumes "gp (ascii ''2024/03/15'') = Some d" "d_year d = 2024" "d_month d = 2"
  shows "sortedMonthlyData gp 40 [customerA] =
     [\<lparr>mr_month = [0x32, 0x30, 0x32, 0x34, c_nian, 0x33, c_yue], mr_year = 2024,
       mr_newCustomers = 1, mr_completedDeals = 1, mr_conversionRate = Num 100,
       mr_totalAmount = Num 15000, mr_averageAmount = Num 15000\<rparr>]"
  using assms
  by (simp add: sortedMonthlyData_def monthlyStep_def serviceDateA monthKey_2024_3 flagsA
        potentialA amountA addAmount_def monthlyDerive_def percentage_def ascii_date_nonempty
        Let_def)

lemma clinicA: "clinicArray 40 [customerA] = []"
  by (simp add: clinicArray_def clinicStep_def customerA_def orDefault_def trim_def
        string_consts s_zuoer_PTA_def s_youer_PTA_def)

lemma storeA: "storeArray 40 [customerA] = []"
  by (simp add: storeArray_def storeStep_def customerA_def string_consts s_zuoer_PTA_def
        s_youer_PTA_def)

lemma hearingA: "hearingArray gp 40 [customerA] = []"
  by (simp add: hearingArray_def hearingStep_def customerA_def orDefault_def orElse_def
        string_consts s_zuoer_PTA_def s_youer_PTA_def)

lemma filteredRows_A:
  assumes "inWindow dr \<lparr>d_year = 2024, d_month = 2, d_day = 15, d_time = 0\<rparr>"
  shows "customersArray (filteredRows gp dr gridA 0) = [customerA]"
  using assms
  by (simp add: customersArray_def filteredRows_def gridA_def processRow_def cell_def trim_20240315 parse_20240315 fieldContents_A
        ascii_date_nonempty Let_def)

text \<open>
  Claim C2 (scenario A). The sheet is the grid of the scenario and the threshold is 40.
  The window covers March 2024: its months are from 1 to 12, its start is not after
  March 2024, its end is not before March 2024. The engine
  reads the date cell \<^verbatim>\<open>2024/03/15\<close> as a date in March 2024. Then the monthly data is
  the one bucket labelled with March 2024, with one new customer, one completed deal, the
  amount 15000 and the rate 100, and the salesperson data is the one entry of the
  audiologist of the row, with one order, one potential customer and the revenue 15000.
\<close>

theorem scenario_A:
  assumes "sheetData st = Some gridA" "ptaThreshold st = 40"
    and "1 \<le> startMonth (dateRange st)" "startMonth (dateRange st) \<le> 12"
        "1 \<le> endMonth (dateRange st)" "endMonth (dateRange st) \<le> 12"
    and "startYear (dateRange st) < 2024 \<or>
         (startYear (dateRange st) = 2024 \<and> startMonth (dateRange st) \<le> 3)"
    and "2024 < endYear (dateRange st) \<or>
         (endYear (dateRange st) = 2024 \<and> 3 \<le> endMonth (dateRange st))"
    and "gp (ascii ''2024/03/15'') = Some d" "d_year d = 2024" "d_month d = 2"
  shows "map_option ca_monthlyData (customerAnalysis (performCustomerAnalysis gp st)) =
           Some [\<lparr>mr_month = [0x32, 0x30, 0x32, 0x34, c_nian, 0x33, c_yue], mr_year = 2024,
                   mr_newCustomers = 1, mr_completedDeals = 1, mr_conversionRate = Num 100,
                   mr_totalAmount = Num 15000, mr_averageAmount = Num 15000\<rparr>] \<and>
         salesmenAnalysis (performCustomerAnalysis gp st) =
           Some [(s_wang_xiaoming,
                  \<lparr>se_name = s_wang_xiaoming, se_orders = 1, se_potential = 1,
                   se_rate = Num 100, se_revenue = Num 15000\<rparr>)]"
proof -
  have cs: "customersArray (filteredRows gp (dateRange st) gridA 0) = [customerA]"
    by (rule filteredRows_A [OF covers_march_2024 [OF assms(3-8)]])
  then have ne: "length (filteredRows gp (dateRange st) gridA 0) > 0"
    by (auto simp: customersArray_def)
  have hd: "hd gridA = headersA" "length gridA = 2" by (simp_all add: gridA_def)
  show ?thesis
    unfolding performCustomerAnalysis_def assms(1,2) option.case hd findIndex_date_headersA
      Let_def
    using ne
    by (simp add: cs salesmenA customerAnalysisOf_def monthlyA [of gp d, OF assms(9-11)]
          Let_def)
qed

theorem scenario_A_witness:
  "map_option ca_monthlyData
     (customerAnalysis (performCustomerAnalysis sampleEngineParse (freshState gridA year2024 40))) =
     Some [\<lparr>mr_month = [0x32, 0x30, 0x32, 0x34, c_nian, 0x33, c_yue], mr_year = 2024,
             mr_newCustomers = 1, mr_completedDeals = 1, mr_conversionRate = Num 100,
             mr_totalAmount = Num 15000, mr_averageAmount = Num 15000\<rparr>] \<and>
   salesmenAnalysis (performCustomerAnalysis sampleEngineParse (freshState gridA year2024 40)) =
     Some [(s_wang_xiaoming,
            \<lparr>se_name = s_wang_xiaoming, se_orders = 1, se_potential = 1,
             se_rate = Num 100, se_revenue = Num 15000\<rparr>)]"
  by (rule scenario_A [where d = "\<lparr>d_year = 2024, d_month = 2, d_day = 15, d_time = 0\<rparr>"])
     (simp_all add: freshState_def year2024_def sample_20240315)

section \<open>Scenario B\<close>

lemma filteredRows_B:
  assumes "startYear dr = 2024" "1 \<le> startMonth dr" "startMonth dr \<le> 12"
  shows "filteredRows gp dr gridB 0 = []"
  by (simp add: filteredRows_def gridB_def processRow_def cell_def
        trim_20230315 parse_20230315 ascii_date_nonempty not_in_2024 [OF assms] Let_def)

lemma perform_gridB_unchanged:
  assumes "sheetData st = Some gridB"
    and "startYear (dateRange st) = 2024"
    and "1 \<le> startMonth (dateRange st)" "startMonth (dateRange st) \<le> 12"
  shows "performCustomerAnalysis gp st = st"
proof -
  have hd: "hd gridB = headersA" "length gridB = 2" by (simp_all add: gridB_def)
  show ?thesis
    unfolding performCustomerAnalysis_def assms(1) option.case hd findIndex_date_headersA
      Let_def filteredRows_B [OF assms(2-4)]
    by simp
qed

lemma perform_fresh_A:
  "performCustomerAnalysis sampleEngineParse (freshState gridA year2024 40) =
     (freshState gridA year2024 40)
       \<lparr>customerAnalysis := Some (customerAnalysisOf sampleEngineParse 40 [customerA]),
        salesmenAnalysis := Some (salesmenOf 40 [customerA]),
        clinicAnalysis := Some [], storeReferralAnalysis := Some [],
        hearingScreeningAnalysis := Some []\<rparr>"
proof -
  have w: "inWindow year2024 \<lparr>d_year = 2024, d_month = 2, d_day = 15, d_time = 0\<rparr>"
    by (rule covers_march_2024) (simp_all add: year2024_def)
  have cs: "customersArray (filteredRows sampleEngineParse year2024 gridA 0) = [customerA]"
    by (rule filteredRows_A [OF w])
  then have ne: "length (filteredRows sampleEngineParse year2024 gridA 0) > 0"
    by (auto simp: customersArray_def)
  have hd: "hd gridA = headersA" "length gridA = 2" by (simp_all add: gridA_def)
  show ?thesis
    unfolding performCustomerAnalysis_def freshState_def
    using ne by (simp add: hd findIndex_date_headersA cs clinicA storeA hearingA Let_def)
qed

lemma totalsA:
  "ca_totalCustomers (customerAnalysisOf gp 40 [customerA]) = 1"
  "ca_totalCompletedDeals (customerAnalysisOf gp 40 [customerA]) = 1"
  "ca_totalAmount (customerAnalysisOf gp 40 [customerA]) = Num 15000"
  "ca_overallConversionRate (customerAnalysisOf gp 40 [customerA]) = Num 100"
  by (simp_all add: customerAnalysisOf_def countPassA totalRevenueA overallRate_def
        percentage_def Let_def)

lemma staleStateB_eq:
  "staleStateB =
     \<lparr>sheetData = Some gridB, dateRange = year2024, ptaThreshold = 40, error = [],
      customerAnalysis = Some (customerAnalysisOf sampleEngineParse 40 [customerA]),
      salesmenAnalysis = Some (salesmenOf 40 [customerA]),
      clinicAnalysis = Some [], storeReferralAnalysis = Some [],
      hearingScreeningAnalysis = Some []\<rparr>"
  unfolding staleStateB_def perform_fresh_A by (simp add: freshState_def)

text \<open>
  Claim C5 (scenario B) as it is stated does not hold. With the date 2023/03/15 and the
  window January to December 2024 no row passes the filter, and the analysis then sets
  nothing. Before the first analysis there is no result at all, so no total that is 0;
  after an analysis of scenario A the totals of scenario A are still there: one customer,
  one deal, the amount 15000, the rate 100.
\<close>

theorem scenario_B_counterexample:
  "customerAnalysis (performCustomerAnalysis sampleEngineParse (freshState gridB year2024 40)) =
     None \<and>
   map_option ca_totalCustomers
     (customerAnalysis (performCustomerAnalysis sampleEngineParse staleStateB)) = Some 1 \<and>
   map_option ca_totalCompletedDeals
     (customerAnalysis (performCustomerAnalysis sampleEngineParse staleStateB)) = Some 1 \<and>
   map_option ca_totalAmount
     (customerAnalysis (performCustomerAnalysis sampleEngineParse staleStateB)) =
     Some (Num 15000) \<and>
   map_option ca_overallConversionRate
     (customerAnalysis (performCustomerAnalysis sampleEngineParse staleStateB)) =
     Some (Num 100)"
proof -
  have f: "performCustomerAnalysis sampleEngineParse (freshState gridB year2024 40) =
             freshState gridB year2024 40"
    by (rule perform_gridB_unchanged) (simp_all add: freshState_def year2024_def)
  have s: "performCustomerAnalysis sampleEngineParse staleStateB = staleStateB"
    by (rule perform_gridB_unchanged) (simp_all add: staleStateB_eq year2024_def)
  show ?thesis
    unfolding f s by (simp add: freshState_def staleStateB_eq totalsA)
qed

text \<open>
  Claim C5 as amended. With the grid of scenario B and a window that starts in a month of
  2024, the row does not pass the date filter: the list of the rows that pass, from which
  the customers and the five aggregates of a run are computed, is empty. The run then
  computes no aggregate and sets nothing. The state after it is the state before it: each
  of the five results and the error keep the value they had, which for a result is no
  value before the first analysis and the result of the earlier analysis otherwise.
\<close>

theorem scenario_B_amended:
  assumes "sheetData st = Some gridB"
    and "startYear (dateRange st) = 2024"
    and "1 \<le> startMonth (dateRange st)" "startMonth (dateRange st) \<le> 12"
  shows "filteredRows gp (dateRange st) gridB 0 = [] \<and>
         customersArray (filteredRows gp (dateRange st) gridB 0) = [] \<and>
         performCustomerAnalysis gp st = st \<and>
         customerAnalysis (performCustomerAnalysis gp st) = customerAnalysis st \<and>
         salesmenAnalysis (performCustomerAnalysis gp st) = salesmenAnalysis st \<and>
         clinicAnalysis (performCustomerAnalysis gp st) = clinicAnalysis st \<and>
         storeReferralAnalysis (performCustomerAnalysis gp st) = storeReferralAnalysis st \<and>
         hearingScreeningAnalysis (performCustomerAnalysis gp st) = hearingScreeningAnalysis st \<and>
         error (performCustomerAnalysis gp st) = error st"
  using filteredRows_B [OF assms(2-4)] perform_gridB_unchanged [OF assms]
  by (simp add: customersArray_def)

theorem scenario_B_amended_witness:
  "filteredRows sampleEngineParse year2024 gridB 0 = [] \<and>
   performCustomerAnalysis sampleEngineParse (freshState gridB year2024 40) =
     freshState gridB year2024 40 \<and>
   customerAnalysis (performCustomerAnalysis sampleEngineParse (freshState gridB year2024 40)) =
     None \<and>
   performCustomerAnalysis sampleEngineParse staleStateB = staleStateB \<and>
   salesmenAnalysis (performCustomerAnalysis sampleEngineParse staleStateB) =
     Some [(s_wang_xiaoming,
            \<lparr>se_name = s_wang_xiaoming, se_orders = 1, se_potential = 1,
             se_rate = Num 100, se_revenue = Num 15000\<rparr>)]"
  using scenario_B_amended [of "freshState gridB year2024 40" sampleEngineParse]
    scenario_B_amended [of staleStateB sampleEngineParse]
  by (simp add: freshState_def year2024_def staleStateB_eq salesmenA)

section \<open>The last day of the window\<close>

lemma filteredRows_lastDay:
  assumes "gp (ascii ''March 31, 2024 10:00'') =
             Some \<lparr>d_year = 2024, d_month = 2, d_day = 31, d_time = 36000000\<rparr>"
  shows "filteredRows gp march2024 gridLastDay 0 = []"
  by (simp add: filteredRows_def gridLastDay_def processRow_def cell_def
        trim_lastDay parse_lastDay assms not_inWindow_lastDay_morning Let_def)

lemma findIndex_date_gridLastDay: "findIndex isDateHeader (hd gridLastDay) = Some 0"
  by (simp add: gridLastDay_def isDateHeader_def s_chuci_daodian_def)

text \<open>
  Claim C4, evaluated at a row dated on the last day of the window. The date cell
  \<^verbatim>\<open>March 31, 2024 10:00\<close> matches none of the three formats and goes to the engine,
  which reads it as 31 March 2024 at ten in the morning. The end of the window March 2024
  is \<^verbatim>\<open>new Date(2024, 3, 0)\<close>, midnight at the start of 31 March, so the date is after
  it: the row does not pass the filter and the analysis sets no result, although the date
  is on the last day of the end month. The same day at midnight passes.
\<close>

theorem last_day_of_window_excluded:
  assumes "gp (ascii ''March 31, 2024 10:00'') =
             Some \<lparr>d_year = 2024, d_month = 2, d_day = 31, d_time = 36000000\<rparr>"
  shows "filteredRows gp march2024 gridLastDay 0 = [] \<and>
         performCustomerAnalysis gp (freshState gridLastDay march2024 40) =
           freshState gridLastDay march2024 40 \<and>
         inWindow march2024 \<lparr>d_year = 2024, d_month = 2, d_day = 31, d_time = 0\<rparr>"
proof -
  have len: "length gridLastDay = 2" by (simp add: gridLastDay_def)
  show ?thesis
    by (simp add: performCustomerAnalysis_def freshState_def len findIndex_date_gridLastDay
          filteredRows_lastDay [of gp, OF assms] inWindow_lastDay_midnight)
qed

theorem last_day_of_window_excluded_witness:
  "sampleEngineParse (ascii ''March 31, 2024 10:00'') =
     Some \<lparr>d_year = 2024, d_month = 2, d_day = 31, d_time = 36000000\<rparr> \<and>
   filteredRows sampleEngineParse march2024 gridLastDay 0 = [] \<and>
   performCustomerAnalysis sampleEngineParse (freshState gridLastDay march2024 40) =
     freshState gridLastDay march2024 40"
proof -
  have p: "sampleEngineParse (ascii ''March 31, 2024 10:00'') =
             Some \<lparr>d_year = 2024, d_month = 2, d_day = 31, d_time = 36000000\<rparr>"
    by (simp add: sampleEngineParse_def ascii_def)
  show ?thesis
    using last_day_of_window_excluded [of sampleEngineParse, OF p] p by simp
qed

section \<open>The missing date column\<close>

lemma perform_no_date_header:
  assumes "sheetData st = Some values" "2 \<le> length values"
    and "\<forall>h\<in>set (hd values).
           \<not> str_includes h s_chuci_daodian \<and> \<not> str_includes h s_riqi \<and> \<not> str_includes h s_Date"
  shows "performCustomerAnalysis gp st = st\<lparr>error := s_error_no_date\<rparr>"
proof -
  have "findIndex isDateHeader (hd values) = None"
    using assms(3) by (simp add: findIndex_None_iff isDateHeader_def)
  then show ?thesis
    using assms(1,2) by (simp add: performCustomerAnalysis_def)
qed

lemma perform_error_unchanged:
  assumes "sheetData st = Some values" "\<exists>h\<in>set (hd values). isDateHeader h"
  shows "error (performCustomerAnalysis gp st) = error st"
proof -
  have "findIndex isDateHeader (hd values) \<noteq> None"
    using assms(2) by (simp add: findIndex_None_iff)
  then show ?thesis
    using assms(1) by (auto simp: performCustomerAnalysis_def Let_def)
qed

lemma perform_few_rows:
  assumes "sheetData st = Some values" "length values < 2"
  shows "performCustomerAnalysis gp st = st"
  using assms by (simp add: performCustomerAnalysis_def)

lemma processRow_placeholders:
  assumes "processRow gp dr headers dci sci aci i row = Some rd"
  shows "(sci = None \<longrightarrow> rd_status rd = s_no_status) \<and>
         (aci = None \<longrightarrow> rd_amount rd = s_no_amount)"
  using assms
  by (auto simp: processRow_def infoCell_def Let_def split: option.splits if_splits)

lemma filteredRows_placeholders:
  assumes "rd \<in> set (filteredRows gp dr values dci)"
  shows "(findIndex isStatusHeader (hd values) = None \<longrightarrow> rd_status rd = s_no_status) \<and>
         (findIndex isAmountHeader (hd values) = None \<longrightarrow> rd_amount rd = s_no_amount)"
proof -
  from assms obtain i row where
    "processRow gp dr (hd values) dci (findIndex isStatusHeader (hd values))
       (findIndex isAmountHeader (hd values)) i row = Some rd"
    by (auto simp: filteredRows_def Let_def List.map_filter_def)
  then show ?thesis by (rule processRow_placeholders)
qed

lemma findIndex_date_gridNoDate:
  "\<forall>h\<in>set (hd gridNoDate).
     \<not> str_includes h s_chuci_daodian \<and> \<not> str_includes h s_riqi \<and> \<not> str_includes h s_Date"
  by (simp add: gridNoDate_def s_xingming_def string_consts)

text \<open>
  Claim C6 as it is stated does not hold. The sheet that has only the header row "name"
  has no header with one of the three date words, and the analysis returns at its first
  line, before it looks at the headers: the state is as before and the error is still
  the empty string.
\<close>

theorem schema_error_counterexample:
  "findIndex isDateHeader (hd gridHeaderOnly) = None \<and>
   performCustomerAnalysis sampleEngineParse (freshState gridHeaderOnly year2024 40) =
     freshState gridHeaderOnly year2024 40 \<and>
   error (performCustomerAnalysis sampleEngineParse (freshState gridHeaderOnly year2024 40)) = []"
  by (simp add: performCustomerAnalysis_def freshState_def gridHeaderOnly_def isDateHeader_def
        s_xingming_def string_consts)

text \<open>
  Claim C6 as amended. A sheet with fewer than two rows leaves the state as it was, with
  no error. For a sheet with at least two rows: if no header of row 0 contains one of
  the three date words, the analysis sets the error message and changes nothing else, so
  none of the five results is set. If some header does contain one, the error is left as
  it was, whatever the other headers are. Without a status or an amount column each row
  that passes the filter is stored with the placeholder for the missing field.
\<close>

theorem schema_error_amended:
  assumes "sheetData st = Some values"
  shows "(length values < 2 \<longrightarrow> performCustomerAnalysis gp st = st) \<and>
         (2 \<le> length values \<and>
          (\<forall>h\<in>set (hd values).
             \<not> str_includes h s_chuci_daodian \<and> \<not> str_includes h s_riqi \<and>
             \<not> str_includes h s_Date)
          \<longrightarrow> performCustomerAnalysis gp st = st\<lparr>error := s_error_no_date\<rparr>) \<and>
         ((\<exists>h\<in>set (hd values). isDateHeader h)
          \<longrightarrow> error (performCustomerAnalysis gp st) = error st) \<and>
         (\<forall>rd\<in>set (filteredRows gp dr values dci).
            (findIndex isStatusHeader (hd values) = None \<longrightarrow> rd_status rd = s_no_status) \<and>
            (findIndex isAmountHeader (hd values) = None \<longrightarrow> rd_amount rd = s_no_amount))"
  using perform_few_rows [OF assms] perform_no_date_header [OF assms]
    perform_error_unchanged [OF assms] filteredRows_placeholders
  by blast

lemmas customerC_consts = customerC_def string_consts example_consts

lemma findIndex_date_gridC: "findIndex isDateHeader (hd gridC) = Some 0"
  by (simp add: gridC_def isDateHeader_def s_chuci_daodian_def)

lemma no_status_amount_gridC:
  "findIndex isStatusHeader (hd gridC) = None" "findIndex isAmountHeader (hd gridC) = None"
  by (simp_all add: gridC_def isStatusHeader_def isAmountHeader_def string_consts example_consts)

lemma fieldContents_C:
  "fieldContents
     [s_chuci_daodian, s_zuoer_PTA, s_zhensuo_mingcheng, s_menshi @ s_zidai, s_guke_laiyuan]
     [dateC, ascii ''50'', ascii ''Clinic'', ascii ''Store'', s_tingshai] = customerC"
  by (simp add: fieldContents_def customerC_def cell_def string_consts s_zuoer_PTA_def dateC_def)

lemma inWindow_year2024_march:
  "inWindow year2024 \<lparr>d_year = 2024, d_month = 2, d_day = 15, d_time = 0\<rparr>"
  by (rule covers_march_2024) (simp_all add: year2024_def)

lemma filteredRows_C:
  "filteredRows gp year2024 gridC 0 =
     [\<lparr>rd_rowNumber = 2, rd_dateField = dateC, rd_status = s_no_status,
       rd_amount = s_no_amount, rd_fields = customerC\<rparr>]"
proof -
  have hd: "hd gridC =
      [s_chuci_daodian, s_zuoer_PTA, s_zhensuo_mingcheng, s_menshi @ s_zidai, s_guke_laiyuan]"
    "tl gridC = [[dateC, ascii ''50'', ascii ''Clinic'', ascii ''Store'', s_tingshai]]"
    by (simp_all add: gridC_def)
  show ?thesis
    unfolding filteredRows_def Let_def no_status_amount_gridC
    unfolding hd
    by (simp add: processRow_def cell_def trim_dateC parse_dateC fieldContents_C
          dateC_nonempty inWindow_year2024_march infoCell_def Let_def)
qed

theorem schema_error_amended_witness:
  "performCustomerAnalysis sampleEngineParse (freshState gridHeaderOnly year2024 40) =
     freshState gridHeaderOnly year2024 40 \<and>
   performCustomerAnalysis sampleEngineParse (freshState gridNoDate year2024 40) =
     (freshState gridNoDate year2024 40)\<lparr>error := s_error_no_date\<rparr> \<and>
   error (performCustomerAnalysis sampleEngineParse (freshState gridC year2024 40)) = [] \<and>
   map rd_status (filteredRows sampleEngineParse year2024 gridC 0) = [s_no_status] \<and>
   map rd_amount (filteredRows sampleEngineParse year2024 gridC 0) = [s_no_amount]"
proof -
  have h: "sheetData (freshState gridHeaderOnly year2024 40) = Some gridHeaderOnly"
    "length gridHeaderOnly < 2"
    by (simp_all add: freshState_def gridHeaderOnly_def)
  have n: "sheetData (freshState gridNoDate year2024 40) = Some gridNoDate"
    "2 \<le> length gridNoDate"
    by (simp_all add: freshState_def gridNoDate_def)
  have c: "sheetData (freshState gridC year2024 40) = Some gridC"
    by (simp add: freshState_def)
  have d: "\<exists>h\<in>set (hd gridC). isDateHeader h"
    by (simp add: gridC_def isDateHeader_def s_chuci_daodian_def)
  show ?thesis
    using schema_error_amended [OF h(1), of sampleEngineParse year2024 0]
      schema_error_amended [OF n(1), of sampleEngineParse year2024 0]
      schema_error_amended [OF c, of sampleEngineParse year2024 0]
      findIndex_date_gridNoDate h(2) n(2) d
    by (simp add: filteredRows_C no_status_amount_gridC) (simp add: freshState_def)
qed

section \<open>The second reading of the date\<close>

lemma monthlyStep_rejected: "gp (serviceDateOf c) = None \<Longrightarrow> monthlyStep gp thr c md = md"
  by (simp add: monthlyStep_def Let_def)

lemma hearingStep_rejected: "gp (serviceDateOf c) = None \<Longrightarrow> hearingStep gp thr c hs = hs"
  by (simp add: hearingStep_def Let_def)

lemma fold_monthly_rejected:
  "\<forall>c\<in>set cs. gp (serviceDateOf c) = None \<Longrightarrow> fold (monthlyStep gp thr) cs md = md"
  by (induction cs arbitrary: md) (simp_all add: monthlyStep_rejected)

lemma fold_hearing_rejected:
  "\<forall>c\<in>set cs. gp (serviceDateOf c) = None \<Longrightarrow> fold (hearingStep gp thr) cs hs = hs"
  by (induction cs arbitrary: hs) (simp_all add: hearingStep_rejected)

lemma serviceDateC: "serviceDateOf customerC = dateC"
  by (simp add: serviceDateOf_def orElse_def orDefault_def customerC_consts)

lemma flagsC: "\<not> isDealt customerC" "\<not> isDealtClinic customerC"
  by (simp_all add: isDealt_def isDealtClinic_def cellIs_def customerC_consts)

lemma earsC: "getEarPTA customerC LeftEar = Num 50"
  by (simp add: getEarPTA_def earLabel_def toUpperCase_def upperUnit_def parseNumber_def cleaned_def
        parseFloat_def isDigit_def digitsVal_def customerC_consts)

lemma potentialC: "isPotentialCustomer 40 customerC" "potentialWith 40 customerC b"
  by (simp_all add: isPotentialCustomer_def potentialWith_def earsC)

lemma salesmanC: "salesmanOf customerC = s_weizhi_yewuyuan"
  by (simp add: salesmanOf_def orElse_def orDefault_def customerC_consts)

lemma sourceC:
  "str_includes
     (orDefault (orElse (map_of customerC s_guke_laiyuan) (map_of customerC s_guke_laiyuan_multi)) [])
     s_tingshai"
  by (simp add: orElse_def orDefault_def customerC_consts)

lemma countPassC:
  "countPass 40 [customerC] =
     \<lparr>acc_salesmen =
        [(s_weizhi_yewuyuan,
          \<lparr>se_name = s_weizhi_yewuyuan, se_orders = 0, se_potential = 1, se_rate = Num 0,
           se_revenue = Num 0\<rparr>)],
      acc_totalPotentialCustomers = 1, acc_totalOrders = 0\<rparr>"
  by (simp add: countPass_def initSalesmen_def initStep_def countStep_def salesmanC flagsC
        potentialC)

lemma salesmenC:
  "salesmenOf 40 [customerC] =
     [(s_weizhi_yewuyuan,
       \<lparr>se_name = s_weizhi_yewuyuan, se_orders = 0, se_potential = 1, se_rate = Num 0,
        se_revenue = Num 0\<rparr>)]"
  by (simp add: salesmenOf_def countPassC revenuePass_def ratePass_def addDeals_def salesmanC
        flagsC percentage_def)

lemma clinicNameC: "trim (orDefault (map_of customerC s_zhensuo_mingcheng) []) = ascii ''Clinic''"
  by (simp add: orDefault_def trim_def isWhiteSpace_def customerC_consts)

lemma ascii_names_nonempty:
  "ascii ''Clinic'' \<noteq> []" "ascii ''Store'' \<noteq> []" "ascii ''Store'' \<noteq> s_hash_NA"
  by (simp_all add: ascii_def s_hash_NA_def)

lemma clinicC:
  "clinicArray 40 [customerC] =
     [\<lparr>ce_clinic = ascii ''Clinic'', ce_total = 1, ce_potential = 1, ce_dealt = 0,
       ce_conversionRate = Num 0, ce_totalAmount = Num 0\<rparr>]"
  by (simp add: clinicArray_def clinicStep_def clinicDerive_def percentage_def potentialC flagsC
        clinicNameC ascii_names_nonempty Let_def)

lemma storeKeyC:
  "find (\<lambda>k. str_includes k s_menshi \<and> str_includes k s_zidai) (map fst customerC) =
     Some (s_menshi @ s_zidai)"
  by (simp add: customerC_consts)

lemma storeNameC: "trim (orDefault (map_of customerC (s_menshi @ s_zidai)) []) = ascii ''Store''"
  by (simp add: orDefault_def trim_def isWhiteSpace_def customerC_consts)

lemma storeC:
  "storeArray 40 [customerC] = [\<lparr>so_store = ascii ''Store'', so_total = 1, so_potential = 1\<rparr>]"
  by (simp add: storeArray_def storeStep_def potentialC storeKeyC storeNameC
        ascii_names_nonempty Let_def)

text \<open>
  Claim C10. The monthly pass and the hearing-screening pass read the service date of a
  customer (the service-date cell, else the first-visit cell) and give it to the engine
  alone; a customer whose service date the engine rejects changes neither aggregate. So
  when the engine rejects the date written with the characters for year, month and day,
  the row of the example, which passed the window filter by the third structural format
  and names the hearing-screening source, is one potential customer in the global total
  and in the salesperson, clinic and store aggregates, while the monthly and the
  hearing-screening aggregate are empty: the monthly new customers sum to less than the
  total.
\<close>

theorem monthly_reparse_drops_record:
  assumes "gp dateC = None"
    and "sheetData st = Some gridC" "dateRange st = year2024" "ptaThreshold st = 40"
  shows "(\<forall>c thr md hs. gp (serviceDateOf c) = None \<longrightarrow>
            monthlyStep gp thr c md = md \<and> hearingStep gp thr c hs = hs) \<and>
         parseRowDate gp dateC = Some \<lparr>d_year = 2024, d_month = 2, d_day = 15, d_time = 0\<rparr> \<and>
         str_includes
           (orDefault
              (orElse (map_of customerC s_guke_laiyuan) (map_of customerC s_guke_laiyuan_multi)) [])
           s_tingshai \<and>
         map_option ca_totalCustomers (customerAnalysis (performCustomerAnalysis gp st)) = Some 1 \<and>
         map_option ca_monthlyData (customerAnalysis (performCustomerAnalysis gp st)) = Some [] \<and>
         hearingScreeningAnalysis (performCustomerAnalysis gp st) = Some [] \<and>
         map_option (map (se_potential \<circ> snd)) (salesmenAnalysis (performCustomerAnalysis gp st)) =
           Some [1] \<and>
         map_option (map ce_total) (clinicAnalysis (performCustomerAnalysis gp st)) = Some [1] \<and>
         map_option (map so_total) (storeReferralAnalysis (performCustomerAnalysis gp st)) =
           Some [1] \<and>
         map_option (\<lambda>ca. sum_list (map mr_newCustomers (ca_monthlyData ca)) < ca_totalCustomers ca)
           (customerAnalysis (performCustomerAnalysis gp st)) = Some True"
proof -
  have cs: "customersArray (filteredRows gp year2024 gridC 0) = [customerC]"
    by (simp add: filteredRows_C customersArray_def)
  have ne: "length (filteredRows gp year2024 gridC 0) > 0"
    by (simp add: filteredRows_C)
  have len: "length gridC = 2" by (simp add: gridC_def)
  have rej: "\<forall>c\<in>set [customerC]. gp (serviceDateOf c) = None"
    by (simp add: serviceDateC assms(1))
  have m: "sortedMonthlyData gp 40 [customerC] = []"
    unfolding sortedMonthlyData_def fold_monthly_rejected [OF rej] by simp
  have h: "hearingArray gp 40 [customerC] = []"
    unfolding hearingArray_def fold_hearing_rejected [OF rej] by simp
  have steps: "\<forall>c thr md hs. gp (serviceDateOf c) = None \<longrightarrow>
                 monthlyStep gp thr c md = md \<and> hearingStep gp thr c hs = hs"
    by (simp add: monthlyStep_rejected hearingStep_rejected)
  have run: "performCustomerAnalysis gp st =
      st\<lparr>customerAnalysis := Some (customerAnalysisOf gp 40 [customerC]),
         salesmenAnalysis := Some (salesmenOf 40 [customerC]),
         clinicAnalysis := Some (clinicArray 40 [customerC]),
         storeReferralAnalysis := Some (storeArray 40 [customerC]),
         hearingScreeningAnalysis := Some (hearingArray gp 40 [customerC])\<rparr>"
    unfolding performCustomerAnalysis_def assms(2-4) option.case findIndex_date_gridC Let_def
    using ne by (simp add: len cs)
  show ?thesis
    unfolding run
    using steps
    by (simp add: parse_dateC sourceC m h salesmenC clinicC storeC customerAnalysisOf_def
          countPassC Let_def)
qed

theorem monthly_reparse_drops_record_witness:
  "sampleEngineParse dateC = None \<and>
   map_option ca_totalCustomers
     (customerAnalysis (performCustomerAnalysis sampleEngineParse (freshState gridC year2024 40))) =
     Some 1 \<and>
   map_option ca_monthlyData
     (customerAnalysis (performCustomerAnalysis sampleEngineParse (freshState gridC year2024 40))) =
     Some [] \<and>
   hearingScreeningAnalysis
     (performCustomerAnalysis sampleEngineParse (freshState gridC year2024 40)) = Some []"
proof -
  have r: "sampleEngineParse dateC = None"
    by (simp add: sampleEngineParse_def dateC_def ascii_def c_nian_def)
  show ?thesis
    using monthly_reparse_drops_record [of sampleEngineParse "freshState gridC year2024 40", OF r] r
    by (simp add: freshState_def)
qed

section \<open>The counters and rates of the aggregates\<close>

lemma isDealt_potential: "isDealt c \<Longrightarrow> isPotentialCustomer thr c"
  by (simp add: isPotentialCustomer_def potentialWith_def)

lemma countStep_inv:
  assumes "\<forall>x\<in>set (acc_salesmen acc). countInv (snd x)"
  shows "\<forall>x\<in>set (acc_salesmen (countStep thr c acc)). countInv (snd x)"
proof (cases "isDealt c")
  case True
  then have p: "isPotentialCustomer thr c" by (rule isDealt_potential)
  have "acc_salesmen (countStep thr c acc) =
          AList.map_entry (salesmanOf c)
            ((\<lambda>e. e\<lparr>se_orders := se_orders e + 1\<rparr>) \<circ>
             (\<lambda>e. e\<lparr>se_potential := se_potential e + 1\<rparr>))
            (acc_salesmen acc)"
    unfolding countStep_def Let_def using True p by (simp add: map_entry_twice)
  then show ?thesis
    by (simp only:) (rule map_entry_all [OF assms], simp add: countInv_def)
next
  case False
  show ?thesis
  proof (cases "isPotentialCustomer thr c")
    case True
    have "acc_salesmen (countStep thr c acc) =
            AList.map_entry (salesmanOf c) (\<lambda>e. e\<lparr>se_potential := se_potential e + 1\<rparr>)
              (acc_salesmen acc)"
      unfolding countStep_def Let_def using True False by simp
    then show ?thesis
      by (simp only:) (rule map_entry_all [OF assms], simp add: countInv_def)
  next
    case f: False
    have "countStep thr c acc = acc"
      unfolding countStep_def Let_def using f False by simp
    then show ?thesis using assms by simp
  qed
qed

lemma fold_countStep_inv:
  "\<forall>x\<in>set (acc_salesmen acc). countInv (snd x) \<Longrightarrow>
   \<forall>x\<in>set (acc_salesmen (fold (countStep thr) cs acc)). countInv (snd x)"
proof (induction cs arbitrary: acc)
  case Nil
  then show ?case by simp
next
  case (Cons c cs)
  show ?case
    unfolding fold_simps by (rule Cons.IH [OF countStep_inv [OF Cons.prems]])
qed

lemma initStep_inv:
  assumes "\<forall>x\<in>set sa. countInv (snd x)"
  shows "\<forall>x\<in>set (initStep c sa). countInv (snd x)"
proof (cases "map_of sa (salesmanOf c) = None")
  case True
  have "countInv \<lparr>se_name = salesmanOf c, se_orders = 0, se_potential = 0, se_rate = Num 0,
                  se_revenue = Num 0\<rparr>"
    by (simp add: countInv_def)
  from update_all [OF assms this] show ?thesis
    unfolding initStep_def Let_def if_P [OF True] .
next
  case False
  show ?thesis unfolding initStep_def Let_def if_not_P [OF False] by (rule assms)
qed

lemma fold_initStep_inv:
  "\<forall>x\<in>set sa. countInv (snd x) \<Longrightarrow> \<forall>x\<in>set (fold initStep cs sa). countInv (snd x)"
proof (induction cs arbitrary: sa)
  case Nil
  then show ?case by simp
next
  case (Cons c cs)
  show ?case
    unfolding fold_simps by (rule Cons.IH [OF initStep_inv [OF Cons.prems]])
qed

lemma initSalesmen_inv: "\<forall>x\<in>set (initSalesmen cs). countInv (snd x)"
  unfolding initSalesmen_def by (rule fold_initStep_inv) simp

lemma countPass_inv: "\<forall>x\<in>set (acc_salesmen (countPass thr cs)). countInv (snd x)"
  unfolding countPass_def
  by (rule fold_countStep_inv) (simp add: initSalesmen_inv)

lemma revenuePass_inv:
  assumes "\<forall>x\<in>set sa. countInv (snd x)"
  shows "\<forall>x\<in>set (revenuePass cs sa). countInv (snd x)"
  unfolding revenuePass_def
  by (rule map_entries_all [OF assms]) (simp add: countInv_def)

lemma ratePass_inv:
  assumes "\<forall>x\<in>set sa. countInv (snd x)"
  shows "\<forall>x\<in>set (ratePass sa). rateInv (snd x)"
  unfolding ratePass_def
  by (rule map_entries_all [OF assms]) (simp add: countInv_def rateInv_def)

lemma salesmenOf_inv: "\<forall>x\<in>set (salesmenOf thr cs). rateInv (snd x)"
  unfolding salesmenOf_def
  by (rule ratePass_inv [OF revenuePass_inv [OF countPass_inv]])

text \<open>
  Claim C8. A customer that the salesperson pass counts as an order it also counts as a
  potential customer, and in the salesperson aggregate that results from the four passes
  no entry has more orders than potential customers.
\<close>

theorem potential_ge_orders:
  "(isDealt c \<longrightarrow> isPotentialCustomer thr c) \<and>
   (\<forall>x\<in>set (salesmenOf thr cs). se_orders (snd x) \<le> se_potential (snd x))"
  using salesmenOf_inv [of thr cs] isDealt_potential [of c thr]
  by (auto simp: rateInv_def)

theorem potential_ge_orders_witness:
  "isDealt customerA \<and> isPotentialCustomer 40 customerA \<and>
   map (se_orders \<circ> snd) (salesmenOf 40 [customerA, customerC]) = [1, 0] \<and>
   map (se_potential \<circ> snd) (salesmenOf 40 [customerA, customerC]) = [1, 1]"
proof -
  have "salesmenOf 40 [customerA, customerC] =
     [(s_wang_xiaoming,
       \<lparr>se_name = s_wang_xiaoming, se_orders = 1, se_potential = 1, se_rate = Num 100,
        se_revenue = Num 15000\<rparr>),
      (s_weizhi_yewuyuan,
       \<lparr>se_name = s_weizhi_yewuyuan, se_orders = 0, se_potential = 1, se_rate = Num 0,
        se_revenue = Num 0\<rparr>)]"
    by (simp add: salesmenOf_def countPass_def initSalesmen_def initStep_def countStep_def
          revenuePass_def ratePass_def addDeals_def salesmanA salesmanC flagsA flagsC potentialA
          potentialC amountA addAmount_def percentage_def)
       (simp add: s_wang_xiaoming_def s_weizhi_yewuyuan_def)
  then show ?thesis
    using potential_ge_orders [of customerA 40 "[customerA, customerC]"]
    by (simp add: flagsA)
qed

lemma monthlyStep_inv:
  assumes "\<forall>x\<in>set md. monthlyInv (snd x)"
  shows "\<forall>x\<in>set (monthlyStep gp thr c md). monthlyInv (snd x)"
proof (cases "serviceDateOf c = []")
  case True
  then show ?thesis using assms by (simp add: monthlyStep_def)
next
  case ne: False
  show ?thesis
  proof (cases "gp (serviceDateOf c)")
    case None
    then show ?thesis using assms ne by (simp add: monthlyStep_def)
  next
    case (Some date)
    show ?thesis
      unfolding monthlyStep_def Let_def if_not_P [OF ne] Some option.case
      by (intro cond_map_entry_all cond_update_all assms)
         (use addAmount_Num in \<open>auto simp: monthlyInv_def\<close>)
  qed
qed

lemma fold_monthlyStep_inv:
  "\<forall>x\<in>set md. monthlyInv (snd x) \<Longrightarrow>
   \<forall>x\<in>set (fold (monthlyStep gp thr) cs md). monthlyInv (snd x)"
proof (induction cs arbitrary: md)
  case Nil
  then show ?case by simp
next
  case (Cons c cs)
  show ?case
    unfolding fold_simps by (rule Cons.IH [OF monthlyStep_inv [OF Cons.prems]])
qed

lemma monthlyDerive_inv: "monthlyInv e \<Longrightarrow> monthlyDerived (monthlyDerive e)"
  by (auto simp: monthlyInv_def monthlyDerived_def monthlyDerive_def percentage_def Let_def)

lemma sortedMonthlyData_inv: "\<forall>e\<in>set (sortedMonthlyData gp thr cs). monthlyDerived e"
proof -
  have "\<forall>x\<in>set (fold (monthlyStep gp thr) cs []). monthlyInv (snd x)"
    by (rule fold_monthlyStep_inv) simp
  then show ?thesis
    by (auto simp: sortedMonthlyData_def monthlyDerive_inv)
qed

lemma clinicArray_inv:
  "\<forall>e\<in>set (clinicArray thr cs).
     ce_conversionRate e =
       (if ce_total e > 0 then Num (real (ce_dealt e) / real (ce_total e) * 100) else Num 0)"
  by (auto simp: clinicArray_def clinicDerive_def percentage_def)

lemma hearingArray_inv:
  "\<forall>e\<in>set (hearingArray gp thr cs).
     he_conversionRate e =
       (if he_total e > 0 then Num (real (he_dealt e) / real (he_total e) * 100) else Num 0)"
  by (auto simp: hearingArray_def hearingDerive_def percentage_def)

lemma overall_inv:
  "ca_overallConversionRate (customerAnalysisOf gp thr cs) =
     (if ca_totalCustomers (customerAnalysisOf gp thr cs) > 0
      then Num (real (ca_totalCompletedDeals (customerAnalysisOf gp thr cs)) /
                real (ca_totalCustomers (customerAnalysisOf gp thr cs)) * 100)
      else Num 0)"
  by (simp add: customerAnalysisOf_def overallRate_def percentage_def Let_def)

lemmas customerZ_consts = customerZ_def string_consts example_consts

lemma flagsZ: "\<not> isDealt customerZ" "\<not> isDealtClinic customerZ" "\<not> isDealtMonthly customerZ"
  by (simp_all add: isDealt_def isDealtClinic_def isDealtMonthly_def cellIs_def
        customerZ_consts)

lemma earsZ: "getEarPTA customerZ e = NaN"
  by (cases e) (simp_all add: getEarPTA_def earLabel_def customerZ_consts)

lemma potentialZ: "\<not> isPotentialCustomer 40 customerZ" "\<not> potentialWith 40 customerZ False"
  by (simp_all add: isPotentialCustomer_def potentialWith_def earsZ flagsZ)

lemma salesmanZ: "salesmanOf customerZ = s_weizhi_yewuyuan"
  by (simp add: salesmanOf_def orElse_def orDefault_def customerZ_consts)

lemma serviceDateZ: "serviceDateOf customerZ = ascii ''2024/03/15''"
  by (simp add: serviceDateOf_def orElse_def orDefault_def customerZ_def string_consts)

lemma countPassZ:
  "countPass 40 [customerZ] =
     \<lparr>acc_salesmen =
        [(s_weizhi_yewuyuan,
          \<lparr>se_name = s_weizhi_yewuyuan, se_orders = 0, se_potential = 0, se_rate = Num 0,
           se_revenue = Num 0\<rparr>)],
      acc_totalPotentialCustomers = 0, acc_totalOrders = 0\<rparr>"
  by (simp add: countPass_def initSalesmen_def initStep_def countStep_def salesmanZ flagsZ
        potentialZ)

lemma salesmenZ:
  "salesmenOf 40 [customerZ] =
     [(s_weizhi_yewuyuan,
       \<lparr>se_name = s_weizhi_yewuyuan, se_orders = 0, se_potential = 0, se_rate = Num 0,
        se_revenue = Num 0\<rparr>)]"
  by (simp add: salesmenOf_def countPassZ revenuePass_def ratePass_def addDeals_def salesmanZ
        flagsZ)

lemma monthlyZ:
  "sortedMonthlyData sampleEngineParse 40 [customerZ] =
     [\<lparr>mr_month = [0x32, 0x30, 0x32, 0x34, c_nian, 0x33, c_yue], mr_year = 2024,
       mr_newCustomers = 0, mr_completedDeals = 0, mr_conversionRate = Num 0,
       mr_totalAmount = Num 0, mr_averageAmount = Num 0\<rparr>]"
  by (simp add: sortedMonthlyData_def monthlyStep_def serviceDateZ sample_20240315
        monthKey_2024_3 flagsZ potentialZ monthlyDerive_def ascii_date_nonempty Let_def)

lemma overallZ:
  "ca_totalCustomers (customerAnalysisOf sampleEngineParse 40 [customerZ]) = 0"
  "ca_overallConversionRate (customerAnalysisOf sampleEngineParse 40 [customerZ]) = Num 0"
  by (simp_all add: customerAnalysisOf_def countPassZ overallRate_def Let_def)

lemma monthlyDerived_rates:
  assumes "monthlyDerived e"
  shows "(mr_newCustomers e = 0 \<longrightarrow> mr_conversionRate e = Num 0) \<and>
         (mr_newCustomers e > 0 \<longrightarrow>
            mr_conversionRate e = Num (real (mr_completedDeals e) / real (mr_newCustomers e) * 100)) \<and>
         (mr_completedDeals e = 0 \<longrightarrow> mr_averageAmount e = Num 0) \<and>
         (mr_completedDeals e > 0 \<longrightarrow>
            mr_averageAmount e = jsdiv (mr_totalAmount e) (Num (real (mr_completedDeals e)))) \<and>
         \<not> isNaN (mr_conversionRate e) \<and> \<not> isNaN (mr_averageAmount e)"
proof -
  from assms obtain v where v: "mr_totalAmount e = Num v"
    and avg: "mr_averageAmount e =
                (if mr_completedDeals e > 0 then Num (v / real (mr_completedDeals e)) else Num 0)"
    and rate: "mr_conversionRate e =
                (if mr_newCustomers e > 0
                 then Num (real (mr_completedDeals e) / real (mr_newCustomers e) * 100) else Num 0)"
    unfolding monthlyDerived_def by blast
  show ?thesis
    unfolding v avg rate by simp
qed

text \<open>
  Claim C9. In the salesperson, monthly, clinic and hearing-screening aggregates and in
  the global totals, the rate (and the monthly average) that is stored is computed from
  the final counters of the bucket: it is 0 when the denominator is 0, and the quotient
  (times 100 for a rate) otherwise. None of these values is NaN. The store aggregate has
  no rate.
\<close>

theorem zero_denominator_rates:
  "(\<forall>x\<in>set (salesmenOf thr cs).
      (se_potential (snd x) = 0 \<longrightarrow> se_rate (snd x) = Num 0) \<and>
      (se_potential (snd x) > 0 \<longrightarrow>
         se_rate (snd x) = Num (real (se_orders (snd x)) / real (se_potential (snd x)) * 100)) \<and>
      \<not> isNaN (se_rate (snd x))) \<and>
   (\<forall>e\<in>set (sortedMonthlyData gp thr cs).
      (mr_newCustomers e = 0 \<longrightarrow> mr_conversionRate e = Num 0) \<and>
      (mr_newCustomers e > 0 \<longrightarrow>
         mr_conversionRate e = Num (real (mr_completedDeals e) / real (mr_newCustomers e) * 100)) \<and>
      (mr_completedDeals e = 0 \<longrightarrow> mr_averageAmount e = Num 0) \<and>
      (mr_completedDeals e > 0 \<longrightarrow>
         mr_averageAmount e = jsdiv (mr_totalAmount e) (Num (real (mr_completedDeals e)))) \<and>
      \<not> isNaN (mr_conversionRate e) \<and> \<not> isNaN (mr_averageAmount e)) \<and>
   (\<forall>e\<in>set (clinicArray thr cs).
      (ce_total e = 0 \<longrightarrow> ce_conversionRate e = Num 0) \<and>
      (ce_total e > 0 \<longrightarrow>
         ce_conversionRate e = Num (real (ce_dealt e) / real (ce_total e) * 100)) \<and>
      \<not> isNaN (ce_conversionRate e)) \<and>
   (\<forall>e\<in>set (hearingArray gp thr cs).
      (he_total e = 0 \<longrightarrow> he_conversionRate e = Num 0) \<and>
      (he_total e > 0 \<longrightarrow>
         he_conversionRate e = Num (real (he_dealt e) / real (he_total e) * 100)) \<and>
      \<not> isNaN (he_conversionRate e)) \<and>
   (ca_totalCustomers (customerAnalysisOf gp thr cs) = 0 \<longrightarrow>
      ca_overallConversionRate (customerAnalysisOf gp thr cs) = Num 0) \<and>
   (ca_totalCustomers (customerAnalysisOf gp thr cs) > 0 \<longrightarrow>
      ca_overallConversionRate (customerAnalysisOf gp thr cs) =
        Num (real (ca_totalCompletedDeals (customerAnalysisOf gp thr cs)) /
             real (ca_totalCustomers (customerAnalysisOf gp thr cs)) * 100)) \<and>
   \<not> isNaN (ca_overallConversionRate (customerAnalysisOf gp thr cs))"
proof -
  have salesmen: "\<forall>x\<in>set (salesmenOf thr cs).
      (se_potential (snd x) = 0 \<longrightarrow> se_rate (snd x) = Num 0) \<and>
      (se_potential (snd x) > 0 \<longrightarrow>
         se_rate (snd x) = Num (real (se_orders (snd x)) / real (se_potential (snd x)) * 100)) \<and>
      \<not> isNaN (se_rate (snd x))"
    using salesmenOf_inv [of thr cs] by (auto simp: rateInv_def percentage_Num)
  have monthly: "\<forall>e\<in>set (sortedMonthlyData gp thr cs).
      (mr_newCustomers e = 0 \<longrightarrow> mr_conversionRate e = Num 0) \<and>
      (mr_newCustomers e > 0 \<longrightarrow>
         mr_conversionRate e = Num (real (mr_completedDeals e) / real (mr_newCustomers e) * 100)) \<and>
      (mr_completedDeals e = 0 \<longrightarrow> mr_averageAmount e = Num 0) \<and>
      (mr_completedDeals e > 0 \<longrightarrow>
         mr_averageAmount e = jsdiv (mr_totalAmount e) (Num (real (mr_completedDeals e)))) \<and>
      \<not> isNaN (mr_conversionRate e) \<and> \<not> isNaN (mr_averageAmount e)"
  proof (rule ballI)
    fix e
    assume "e \<in> set (sortedMonthlyData gp thr cs)"
    then have "monthlyDerived e" using sortedMonthlyData_inv by blast
    then show
      "(mr_newCustomers e = 0 \<longrightarrow> mr_conversionRate e = Num 0) \<and>
       (mr_newCustomers e > 0 \<longrightarrow>
          mr_conversionRate e = Num (real (mr_completedDeals e) / real (mr_newCustomers e) * 100)) \<and>
       (mr_completedDeals e = 0 \<longrightarrow> mr_averageAmount e = Num 0) \<and>
       (mr_completedDeals e > 0 \<longrightarrow>
          mr_averageAmount e = jsdiv (mr_totalAmount e) (Num (real (mr_completedDeals e)))) \<and>
       \<not> isNaN (mr_conversionRate e) \<and> \<not> isNaN (mr_averageAmount e)"
      by (rule monthlyDerived_rates)
  qed
  have clinic: "\<forall>e\<in>set (clinicArray thr cs).
      (ce_total e = 0 \<longrightarrow> ce_conversionRate e = Num 0) \<and>
      (ce_total e > 0 \<longrightarrow>
         ce_conversionRate e = Num (real (ce_dealt e) / real (ce_total e) * 100)) \<and>
      \<not> isNaN (ce_conversionRate e)"
    using clinicArray_inv [of thr cs] by auto
  have hearing: "\<forall>e\<in>set (hearingArray gp thr cs).
      (he_total e = 0 \<longrightarrow> he_conversionRate e = Num 0) \<and>
      (he_total e > 0 \<longrightarrow>
         he_conversionRate e = Num (real (he_dealt e) / real (he_total e) * 100)) \<and>
      \<not> isNaN (he_conversionRate e)"
    using hearingArray_inv [of gp thr cs] by auto
  have overall:
    "ca_totalCustomers (customerAnalysisOf gp thr cs) = 0 \<longrightarrow>
       ca_overallConversionRate (customerAnalysisOf gp thr cs) = Num 0"
    "ca_totalCustomers (customerAnalysisOf gp thr cs) > 0 \<longrightarrow>
       ca_overallConversionRate (customerAnalysisOf gp thr cs) =
         Num (real (ca_totalCompletedDeals (customerAnalysisOf gp thr cs)) /
              real (ca_totalCustomers (customerAnalysisOf gp thr cs)) * 100)"
    "\<not> isNaN (ca_overallConversionRate (customerAnalysisOf gp thr cs))"
    using overall_inv [of gp thr cs] by auto
  show ?thesis
    using salesmen monthly clinic hearing overall by (intro conjI)
qed

theorem zero_denominator_rates_witness:
  "map (se_potential \<circ> snd) (salesmenOf 40 [customerZ]) = [0] \<and>
   map (se_rate \<circ> snd) (salesmenOf 40 [customerZ]) = [Num 0] \<and>
   map mr_newCustomers (sortedMonthlyData sampleEngineParse 40 [customerZ]) = [0] \<and>
   map mr_completedDeals (sortedMonthlyData sampleEngineParse 40 [customerZ]) = [0] \<and>
   map mr_conversionRate (sortedMonthlyData sampleEngineParse 40 [customerZ]) = [Num 0] \<and>
   map mr_averageAmount (sortedMonthlyData sampleEngineParse 40 [customerZ]) = [Num 0] \<and>
   ca_totalCustomers (customerAnalysisOf sampleEngineParse 40 [customerZ]) = 0 \<and>
   ca_overallConversionRate (customerAnalysisOf sampleEngineParse 40 [customerZ]) = Num 0"
  using zero_denominator_rates [of 40 "[customerZ]" sampleEngineParse]
  by (simp add: salesmenZ monthlyZ overallZ)

section \<open>The potential flag in the passes\<close>

lemma earsU: "getEarPTA customerU LeftEar = NaN" "getEarPTA customerU RightEar = NaN"
  by (simp_all add: getEarPTA_def customerU_def earLabel_def toUpperCase_def upperUnit_def
        parseNumber_def cleaned_def parseFloat_def isDigit_def string_consts example_consts)

lemma not_dealt_U: "\<not> isDealt customerU"
  by (simp add: isDealt_def cellIs_def customerU_def string_consts example_consts)

text \<open>
  The flag of every pass is the same expression over the two PTA values and the deal test
  of the pass. A PTA value is NaN or a number, and NaN compares false.
\<close>

lemma potentialWith_iff:
  "potentialWith thr c dealt \<longleftrightarrow>
     (\<exists>v. getEarPTA c LeftEar = Num v \<and> thr < v) \<or>
     (\<exists>v. getEarPTA c RightEar = Num v \<and> thr < v) \<or> dealt"
proof -
  have l: "jsgt (getEarPTA c LeftEar) (Num thr) \<longleftrightarrow>
             (\<exists>v. getEarPTA c LeftEar = Num v \<and> thr < v)"
    using getEarPTA_cases [of c LeftEar] by (intro jsgt_Num_iff) auto
  have r: "jsgt (getEarPTA c RightEar) (Num thr) \<longleftrightarrow>
             (\<exists>v. getEarPTA c RightEar = Num v \<and> thr < v)"
    using getEarPTA_cases [of c RightEar] by (intro jsgt_Num_iff) auto
  show ?thesis
    unfolding potentialWith_def l r by auto
qed

lemma potentialWith_NaN:
  "getEarPTA c LeftEar = NaN \<Longrightarrow> getEarPTA c RightEar = NaN \<Longrightarrow> potentialWith thr c dealt = dealt"
  by (simp add: potentialWith_def)

text \<open>
  A header that only the full case mapping turns into one with \<^verbatim>\<open>PTA\<close>: the cell is
  read.
\<close>

lemma earT: "getEarPTA customerT LeftEar = Num 60"
  by (simp add: getEarPTA_def customerT_def earLabel_def toUpperCase_def upperUnit_def
        parseNumber_def cleaned_def parseFloat_def isDigit_def digitsVal_def string_consts
        example_consts)

lemma earsP: "getEarPTA customerP LeftEar = Num 35" "getEarPTA customerP RightEar = Num (91 / 2)"
  by (simp_all add: getEarPTA_def customerP_def earLabel_def toUpperCase_def upperUnit_def
        parseNumber_def cleaned_def parseFloat_def isDigit_def digitsVal_def string_consts
        example_consts)

lemma flagsP: "\<not> isDealt customerP" "\<not> isDealtClinic customerP" "\<not> isDealtMonthly customerP"
  "\<not> isDealtHS customerP"
  by (simp_all add: isDealt_def isDealtClinic_def isDealtMonthly_def isDealtHS_def cellIs_def
        customerP_def string_consts example_consts)

lemma potentialP:
  "isPotentialCustomer 40 customerP" "\<not> isPotentialCustomer (91 / 2) customerP"
  "isPotentialCustomer 30 customerP"
  by (simp_all add: isPotentialCustomer_def potentialWith_def earsP flagsP)

lemmas customerJ_consts = customerJ_def string_consts example_consts

lemma earsJ: "getEarPTA customerJ e = NaN"
  by (cases e) (simp_all add: getEarPTA_def earLabel_def customerJ_consts)

lemma flagsJ: "isDealt customerJ" "isDealtMonthly customerJ" "\<not> isDealtClinic customerJ"
  "isDealtHS customerJ"
  by (simp_all add: isDealt_def isDealtClinic_def isDealtMonthly_def isDealtHS_def cellIs_def
        customerJ_consts)

text \<open>The deal test of the hearing-screening pass has the operands of the salesperson pass.\<close>

lemma isDealtHS_eq_isDealt: "isDealtHS c = isDealt c"
  by (auto simp: isDealtHS_def isDealt_def)

lemma potentialJ: "isPotentialCustomer 40 customerJ" "potentialWith 40 customerJ b = b"
  by (simp_all add: isPotentialCustomer_def potentialWith_def earsJ flagsJ)

lemma amountJ: "dealAmount customerJ = NaN"
  by (simp add: dealAmount_def orElse_def parseAmount_def customerJ_consts)

lemma potentialU: "potentialWith 40 customerU b = b"
  by (simp add: potentialWith_def earsU)

lemma not_potential_U: "\<not> isPotentialCustomer 40 customerU"
  by (simp add: isPotentialCustomer_def potentialU not_dealt_U)

lemma not_dealt_clinic_U: "\<not> isDealtClinic customerU"
  by (simp add: isDealtClinic_def cellIs_def customerU_def string_consts example_consts)

lemma salesmanJ: "salesmanOf customerJ = s_weizhi_yewuyuan"
  by (simp add: salesmanOf_def orElse_def orDefault_def customerJ_consts)

lemma serviceDateJ: "serviceDateOf customerJ = ascii ''2024/03/15''"
  by (simp add: serviceDateOf_def orElse_def orDefault_def customerJ_def string_consts)

lemma countPassJ:
  "countPass 40 [customerJ] =
     \<lparr>acc_salesmen =
        [(s_weizhi_yewuyuan,
          \<lparr>se_name = s_weizhi_yewuyuan, se_orders = 1, se_potential = 1, se_rate = Num 0,
           se_revenue = Num 0\<rparr>)],
      acc_totalPotentialCustomers = 1, acc_totalOrders = 1\<rparr>"
  by (simp add: countPass_def initSalesmen_def initStep_def countStep_def salesmanJ flagsJ
        potentialJ)

lemma monthlyJ:
  "sortedMonthlyData sampleEngineParse 40 [customerJ] =
     [\<lparr>mr_month = [0x32, 0x30, 0x32, 0x34, c_nian, 0x33, c_yue], mr_year = 2024,
       mr_newCustomers = 0, mr_completedDeals = 1, mr_conversionRate = Num 0,
       mr_totalAmount = Num 0, mr_averageAmount = Num 0\<rparr>]"
  by (simp add: sortedMonthlyData_def monthlyStep_def serviceDateJ sample_20240315
        monthKey_2024_3 flagsJ potentialJ monthlyDerive_def ascii_date_nonempty Let_def
        amountJ addAmount_NaN)

lemma clinicNameJ: "trim (orDefault (map_of customerJ s_zhensuo_mingcheng) []) = ascii ''Clinic''"
  by (simp add: orDefault_def trim_def isWhiteSpace_def customerJ_consts)

lemma clinicJ:
  "clinicArray 40 [customerJ] =
     [\<lparr>ce_clinic = ascii ''Clinic'', ce_total = 1, ce_potential = 0, ce_dealt = 0,
       ce_conversionRate = Num 0, ce_totalAmount = Num 0\<rparr>]"
  by (simp add: clinicArray_def clinicStep_def clinicDerive_def percentage_def potentialJ flagsJ
        clinicNameJ ascii_names_nonempty Let_def)

lemma storeKeyJ:
  "find (\<lambda>k. str_includes k s_menshi \<and> str_includes k s_zidai) (map fst customerJ) =
     Some (s_menshi @ s_zidai)"
  by (simp add: customerJ_consts)

lemma storeNameJ: "trim (orDefault (map_of customerJ (s_menshi @ s_zidai)) []) = ascii ''Store''"
  by (simp add: orDefault_def trim_def isWhiteSpace_def customerJ_consts)

lemma storeJ:
  "storeArray 40 [customerJ] = [\<lparr>so_store = ascii ''Store'', so_total = 1, so_potential = 0\<rparr>]"
  by (simp add: storeArray_def storeStep_def potentialJ flagsJ storeKeyJ storeNameJ
        ascii_names_nonempty Let_def)

lemma findIndex_date_gridJ: "findIndex isDateHeader (hd gridJ) = Some 0"
  by (simp add: gridJ_def isDateHeader_def s_chuci_daodian_def)

lemma fieldContents_J:
  "fieldContents (hd gridJ) [ascii ''2024/03/15'', s_shi, ascii ''Clinic'', ascii ''Store''] =
     customerJ"
  by (simp add: fieldContents_def customerJ_def cell_def gridJ_def string_consts)

lemma customers_J: "customersArray (filteredRows sampleEngineParse year2024 gridJ 0) = [customerJ]"
proof -
  have w: "inWindow year2024 \<lparr>d_year = 2024, d_month = 2, d_day = 15, d_time = 0\<rparr>"
    by (rule covers_march_2024) (simp_all add: year2024_def)
  have "rowPasses sampleEngineParse year2024 0
          [ascii ''2024/03/15'', s_shi, ascii ''Clinic'', ascii ''Store'']"
    by (simp add: rowPasses_def cell_def trim_20240315 parse_20240315 ascii_date_nonempty w)
  then show ?thesis
    unfolding customersArray_passing_rows
    by (simp add: gridJ_def fieldContents_J [unfolded gridJ_def, simplified])
qed

lemma perform_J:
  "performCustomerAnalysis sampleEngineParse (freshState gridJ year2024 40) =
     (freshState gridJ year2024 40)
       \<lparr>customerAnalysis := Some (customerAnalysisOf sampleEngineParse 40 [customerJ]),
        salesmenAnalysis := Some (salesmenOf 40 [customerJ]),
        clinicAnalysis := Some (clinicArray 40 [customerJ]),
        storeReferralAnalysis := Some (storeArray 40 [customerJ]),
        hearingScreeningAnalysis := Some (hearingArray sampleEngineParse 40 [customerJ])\<rparr>"
proof -
  have ne: "length (filteredRows sampleEngineParse year2024 gridJ 0) > 0"
    using customers_J by (auto simp: customersArray_def)
  have len: "length gridJ = 2" by (simp add: gridJ_def)
  show ?thesis
    unfolding performCustomerAnalysis_def freshState_def
    using ne by (simp add: len findIndex_date_gridJ customers_J Let_def)
qed

text \<open>
  Claim C3, evaluated at three records. With a left-ear value of 35 and a right-ear value
  of 45.5 and no deal marker, the record is potential for the thresholds 30 and 40 and
  not for 45.5: the comparison is strict. With no PTA value that can be read and no deal
  marker the two values are NaN and the record is not potential, in any pass. The third
  record is the row of the sheet \<^term>\<open>gridJ\<close>, whose only deal marker is the cell
  "device on loan?" with the answer "yes", analysed with the threshold 40 and the window
  of 2024. It is a deal, and therefore potential, in the salesperson pass, which gives the
  global totals (one potential customer), and with the deal test of the hearing-screening
  pass. The monthly, clinic and store passes compute the flag with another deal test,
  which does not know this marker: there the record is not potential, although the monthly
  pass counts it as a completed deal. The month has no new customer and one completed
  deal, the clinic and the store have one customer and no potential customer.
\<close>

theorem potential_flag_differs_between_passes:
  "getEarPTA customerP LeftEar = Num 35 \<and> getEarPTA customerP RightEar = Num (91 / 2) \<and>
   \<not> isDealt customerP \<and>
   isPotentialCustomer 40 customerP \<and> \<not> isPotentialCustomer (91 / 2) customerP \<and>
   isPotentialCustomer 30 customerP \<and>
   getEarPTA customerU LeftEar = NaN \<and> getEarPTA customerU RightEar = NaN \<and>
   \<not> isDealt customerU \<and> \<not> isPotentialCustomer 40 customerU \<and>
   \<not> potentialWith 40 customerU (isDealtClinic customerU) \<and>
   customersArray (filteredRows sampleEngineParse year2024 gridJ 0) = [customerJ] \<and>
   isDealt customerJ \<and> isPotentialCustomer 40 customerJ \<and>
   isDealtHS customerJ \<and> potentialWith 40 customerJ (isDealtHS customerJ) \<and>
   isDealtMonthly customerJ \<and> \<not> potentialWith 40 customerJ (isDealtClinic customerJ) \<and>
   map_option ca_totalCustomers
     (customerAnalysis (performCustomerAnalysis sampleEngineParse (freshState gridJ year2024 40))) =
     Some 1 \<and>
   map_option (map (\<lambda>e. (mr_newCustomers e, mr_completedDeals e)) \<circ> ca_monthlyData)
     (customerAnalysis (performCustomerAnalysis sampleEngineParse (freshState gridJ year2024 40))) =
     Some [(0, 1)] \<and>
   map_option (map (\<lambda>e. (ce_total e, ce_potential e)))
     (clinicAnalysis (performCustomerAnalysis sampleEngineParse (freshState gridJ year2024 40))) =
     Some [(1, 0)] \<and>
   map_option (map (\<lambda>e. (so_total e, so_potential e)))
     (storeReferralAnalysis
        (performCustomerAnalysis sampleEngineParse (freshState gridJ year2024 40))) =
     Some [(1, 0)]"
  unfolding perform_J
  by (simp add: earsP flagsP potentialP earsU not_dealt_U not_dealt_clinic_U potentialU
        not_potential_U customers_J flagsJ potentialJ monthlyJ clinicJ storeJ
        customerAnalysisOf_def countPassJ Let_def)

section \<open>Amounts in the sums and in the monthly average\<close>

lemmas dealWithAmount_consts = dealWithAmount_def string_consts

lemma findIndex_date_headersN: "findIndex isDateHeader headersN = Some 0"
  by (simp add: headersN_def isDateHeader_def s_chuci_daodian_def)

lemma fieldContents_N:
  "fieldContents headersN [ascii ''2024/03/15'', s_shi, a] = dealWithAmount a"
  by (simp add: fieldContents_def cell_def headersN_def dealWithAmount_consts)

lemma rowPasses_N: "rowPasses sampleEngineParse year2024 0 [ascii ''2024/03/15'', b, a]"
proof -
  have w: "inWindow year2024 \<lparr>d_year = 2024, d_month = 2, d_day = 15, d_time = 0\<rparr>"
    by (rule covers_march_2024) (simp_all add: year2024_def)
  show ?thesis
    by (simp add: rowPasses_def cell_def trim_20240315 parse_20240315 ascii_date_nonempty w)
qed

lemma customers_N:
  "customersArray (filteredRows sampleEngineParse year2024 [headersN,
      [ascii ''2024/03/15'', s_shi, a], [ascii ''2024/03/15'', s_shi, b]] 0) =
     [dealWithAmount a, dealWithAmount b]"
  unfolding customersArray_passing_rows by (simp add: rowPasses_N fieldContents_N)

lemma flagsN: "isDealt (dealWithAmount a)" "isDealtMonthly (dealWithAmount a)"
  "isDealtClinic (dealWithAmount a)"
  by (simp_all add: isDealt_def isDealtMonthly_def isDealtClinic_def cellIs_def
        dealWithAmount_consts)

lemma serviceDateN: "serviceDateOf (dealWithAmount a) = ascii ''2024/03/15''"
  by (simp add: serviceDateOf_def orElse_def orDefault_def dealWithAmount_consts)

lemma amountsN:
  "dealAmount (dealWithAmount (ascii ''10000'')) = Num 10000"
  "dealAmount (dealWithAmount (ascii ''N/A'')) = NaN"
  "dealAmount (dealWithAmount (ascii ''0'')) = Num 0"
  by (simp_all add: dealAmount_def orElse_def parseAmount_def cleaned_def parseFloat_def
        isDigit_def digitsVal_def dealWithAmount_consts ascii_def)

lemma monthlyN:
  assumes "dealAmount (dealWithAmount a) = NaN \<or> dealAmount (dealWithAmount a) = Num 0"
  shows "sortedMonthlyData sampleEngineParse 40 [dealWithAmount (ascii ''10000''), dealWithAmount a] =
     [\<lparr>mr_month = [0x32, 0x30, 0x32, 0x34, c_nian, 0x33, c_yue], mr_year = 2024,
       mr_newCustomers = 2, mr_completedDeals = 2, mr_conversionRate = Num 100,
       mr_totalAmount = Num 10000, mr_averageAmount = Num 5000\<rparr>]"
  using assms
  by (auto simp: sortedMonthlyData_def monthlyStep_def serviceDateN sample_20240315
        monthKey_2024_3 flagsN potentialWith_def monthlyDerive_def percentage_def
        ascii_date_nonempty Let_def amountsN addAmount_def)

lemma monthlyD:
  "sortedMonthlyData sampleEngineParse 40 [dealWithAmount (ascii ''10000'')] =
     [\<lparr>mr_month = [0x32, 0x30, 0x32, 0x34, c_nian, 0x33, c_yue], mr_year = 2024,
       mr_newCustomers = 1, mr_completedDeals = 1, mr_conversionRate = Num 100,
       mr_totalAmount = Num 10000, mr_averageAmount = Num 10000\<rparr>]"
  by (simp add: sortedMonthlyData_def monthlyStep_def serviceDateN sample_20240315
        monthKey_2024_3 flagsN potentialWith_def monthlyDerive_def percentage_def
        ascii_date_nonempty Let_def amountsN addAmount_def)

lemma perform_N:
  assumes "values = [headersN, [ascii ''2024/03/15'', s_shi, a], [ascii ''2024/03/15'', s_shi, b]]"
  shows "customerAnalysis (performCustomerAnalysis sampleEngineParse (freshState values year2024 40)) =
     Some (customerAnalysisOf sampleEngineParse 40 [dealWithAmount a, dealWithAmount b])"
proof -
  have ne: "length (filteredRows sampleEngineParse year2024 values 0) > 0"
    using customers_N [of a b] unfolding assms by (auto simp: customersArray_def)
  have hd: "hd values = headersN" "length values = 3" by (simp_all add: assms)
  show ?thesis
    unfolding performCustomerAnalysis_def freshState_def
    using ne by (simp add: hd findIndex_date_headersN customers_N [of a b, folded assms] Let_def)
qed

lemma customers_gridN:
  "customersArray (filteredRows sampleEngineParse year2024 gridN 0) =
     [dealWithAmount (ascii ''10000''), dealWithAmount (ascii ''N/A'')]"
  unfolding gridN_def by (rule customers_N)

text \<open>
  Claim C7 as it is stated does not hold for the average. The sheet has two deals of March
  2024, one of 10000 and one whose amount cell reads \<^verbatim>\<open>N/A\<close>. The amount of the second
  is NaN and is not added to the sum, which is 10000, but the deal is counted: the month
  has two completed deals and the average 5000. The same sheet with the amount 0 in the
  place of \<^verbatim>\<open>N/A\<close> gives the same sum, count and average, while the first deal alone
  has the average 10000.
\<close>

theorem average_counts_deal_without_amount:
  "customersArray (filteredRows sampleEngineParse year2024 gridN 0) =
     [dealWithAmount (ascii ''10000''), dealWithAmount (ascii ''N/A'')] \<and>
   dealAmount (dealWithAmount (ascii ''N/A'')) = NaN \<and>
   dealAmount (dealWithAmount (ascii ''0'')) = Num 0 \<and>
   map_option ca_monthlyData
     (customerAnalysis (performCustomerAnalysis sampleEngineParse (freshState gridN year2024 40))) =
     Some [\<lparr>mr_month = [0x32, 0x30, 0x32, 0x34, c_nian, 0x33, c_yue], mr_year = 2024,
             mr_newCustomers = 2, mr_completedDeals = 2, mr_conversionRate = Num 100,
             mr_totalAmount = Num 10000, mr_averageAmount = Num 5000\<rparr>] \<and>
   map_option ca_monthlyData
     (customerAnalysis (performCustomerAnalysis sampleEngineParse (freshState gridO year2024 40))) =
     Some [\<lparr>mr_month = [0x32, 0x30, 0x32, 0x34, c_nian, 0x33, c_yue], mr_year = 2024,
             mr_newCustomers = 2, mr_completedDeals = 2, mr_conversionRate = Num 100,
             mr_totalAmount = Num 10000, mr_averageAmount = Num 5000\<rparr>] \<and>
   sortedMonthlyData sampleEngineParse 40 [dealWithAmount (ascii ''10000'')] =
     [\<lparr>mr_month = [0x32, 0x30, 0x32, 0x34, c_nian, 0x33, c_yue], mr_year = 2024,
       mr_newCustomers = 1, mr_completedDeals = 1, mr_conversionRate = Num 100,
       mr_totalAmount = Num 10000, mr_averageAmount = Num 10000\<rparr>]"
  by (simp add: perform_N [OF gridN_def] perform_N [OF gridO_def] customers_gridN
        amountsN customerAnalysisOf_def monthlyN monthlyD Let_def)

lemma monthlyStep_counts_deal:
  assumes "isDealtMonthly c" "serviceDateOf c \<noteq> []" "gp (serviceDateOf c) = Some d"
  shows "\<exists>e. map_of (monthlyStep gp thr c md) (monthKeyOf d) = Some e \<and>
             mr_completedDeals e =
               (case map_of md (monthKeyOf d) of None \<Rightarrow> 0 | Some e0 \<Rightarrow> mr_completedDeals e0) + 1"
  using assms
  by (auto simp: monthlyStep_def Let_def AList.map_of_map_entry AList.update_conv'
        split: option.splits)

lemma monthlyDerived_average:
  assumes "monthlyDerived e"
  shows "\<not> isNaN (mr_totalAmount e) \<and> \<not> isNaN (mr_averageAmount e) \<and>
         mr_averageAmount e =
           (if mr_completedDeals e > 0
            then jsdiv (mr_totalAmount e) (Num (real (mr_completedDeals e))) else Num 0)"
  using assms unfolding monthlyDerived_def by auto

lemma addAmount_zero: "addAmount t (Num 0) = t"
  by (simp add: addAmount_def)

text \<open>
  Claim C7 as amended. The amount parser keeps the decimal digits and points of its
  argument and reads the rest with \<^verbatim>\<open>parseFloat\<close>, so \<^verbatim>\<open>NT$152,000.00\<close> is 152000. A
  missing or empty cell, and a cell in which no digit or point is left, give NaN. An
  amount that is NaN is added to no sum: the guarded addition returns the sum it was
  given, as it does for the amount 0, and the sums kept by the salesperson, monthly,
  clinic and hearing-screening passes are the same after a customer with such an amount
  as before (a bucket that the customer opens starts at 0). The monthly pass still counts
  a deal with such an amount as a completed deal of its month. In the monthly data no sum
  and no average is NaN, and the average of a month is its sum divided by its number of
  completed deals (0 when there is none): a deal whose amount is NaN weighs in the
  average as a deal with the amount 0 does.
\<close>

theorem parseAmount_strips_and_NaN_counts_as_zero:
  "parseAmount (Some (ascii ''NT$152,000.00'')) = Num 152000 \<and>
   (s \<noteq> [] \<longrightarrow> parseAmount (Some s) = parseFloat (filter (\<lambda>ch. isDigit ch \<or> ch = 0x2E) s)) \<and>
   parseAmount None = NaN \<and> parseAmount (Some []) = NaN \<and>
   (filter (\<lambda>ch. isDigit ch \<or> ch = 0x2E) s = [] \<longrightarrow> parseAmount (Some s) = NaN) \<and>
   (dealAmount c = NaN \<longrightarrow>
      addAmount t (dealAmount c) = t \<and> addAmount t (Num 0) = t \<and>
      addDeals (c # cs) k t = addDeals cs k t \<and>
      (\<forall>e. map_of (monthlyStep gp thr c md) k = Some e \<longrightarrow>
           mr_totalAmount e = (case map_of md k of None \<Rightarrow> Num 0 | Some e0 \<Rightarrow> mr_totalAmount e0)) \<and>
      (\<forall>e. map_of (clinicStep thr c cl) k = Some e \<longrightarrow>
           ce_totalAmount e = (case map_of cl k of None \<Rightarrow> Num 0 | Some e0 \<Rightarrow> ce_totalAmount e0)) \<and>
      (\<forall>e. map_of (hearingStep gp thr c hs) k = Some e \<longrightarrow>
           he_totalAmount e = (case map_of hs k of None \<Rightarrow> Num 0 | Some e0 \<Rightarrow> he_totalAmount e0)) \<and>
      (isDealtMonthly c \<and> serviceDateOf c \<noteq> [] \<and> gp (serviceDateOf c) = Some d \<longrightarrow>
         (\<exists>e. map_of (monthlyStep gp thr c md) (monthKeyOf d) = Some e \<and>
              mr_completedDeals e =
                (case map_of md (monthKeyOf d) of None \<Rightarrow> 0
                 | Some e0 \<Rightarrow> mr_completedDeals e0) + 1 \<and>
              mr_totalAmount e =
                (case map_of md (monthKeyOf d) of None \<Rightarrow> Num 0
                 | Some e0 \<Rightarrow> mr_totalAmount e0)))) \<and>
   (\<forall>e\<in>set (sortedMonthlyData gp thr cs').
      \<not> isNaN (mr_totalAmount e) \<and> \<not> isNaN (mr_averageAmount e) \<and>
      mr_averageAmount e =
        (if mr_completedDeals e > 0
         then jsdiv (mr_totalAmount e) (Num (real (mr_completedDeals e))) else Num 0))"
proof -
  have strip: "s \<noteq> [] \<longrightarrow> parseAmount (Some s) = parseFloat (filter (\<lambda>ch. isDigit ch \<or> ch = 0x2E) s)"
    by (simp add: parseAmount_def cleaned_def)
  have absent: "parseAmount None = NaN" "parseAmount (Some []) = NaN"
    by (simp_all add: parseAmount_def)
  have stripped: "filter (\<lambda>ch. isDigit ch \<or> ch = 0x2E) s = [] \<longrightarrow> parseAmount (Some s) = NaN"
    by (simp add: parseAmount_def cleaned_def parseFloat_def)
  have skipped: "addAmount t (dealAmount c) = t" if "dealAmount c = NaN"
    using that by (simp add: addAmount_NaN)
  have counted: "\<exists>e. map_of (monthlyStep gp thr c md) (monthKeyOf d) = Some e \<and>
              mr_completedDeals e =
                (case map_of md (monthKeyOf d) of None \<Rightarrow> 0
                 | Some e0 \<Rightarrow> mr_completedDeals e0) + 1 \<and>
              mr_totalAmount e =
                (case map_of md (monthKeyOf d) of None \<Rightarrow> Num 0
                 | Some e0 \<Rightarrow> mr_totalAmount e0)"
    if "dealAmount c = NaN" "isDealtMonthly c \<and> serviceDateOf c \<noteq> [] \<and> gp (serviceDateOf c) = Some d"
    using monthlyStep_counts_deal [of c gp d thr md] monthlyStep_NaN [OF that(1), of gp thr md "monthKeyOf d"] that(2)
    by auto
  have averages: "\<forall>e\<in>set (sortedMonthlyData gp thr cs').
      \<not> isNaN (mr_totalAmount e) \<and> \<not> isNaN (mr_averageAmount e) \<and>
      mr_averageAmount e =
        (if mr_completedDeals e > 0
         then jsdiv (mr_totalAmount e) (Num (real (mr_completedDeals e))) else Num 0)"
    using sortedMonthlyData_inv [of gp thr cs'] monthlyDerived_average by blast
  show ?thesis
    using parseAmount_NT strip absent stripped skipped addAmount_zero addDeals_NaN monthlyStep_NaN
      clinicStep_NaN hearingStep_NaN counted averages
    by (intro conjI impI allI) blast+
qed

theorem parseAmount_strips_and_NaN_counts_as_zero_witness:
  "parseAmount (Some (ascii ''N/A'')) = NaN \<and>
   parseAmount (Some (ascii ''1,250.50 NTD'')) = parseFloat (ascii ''1250.50'') \<and>
   addAmount (Num 7) (dealAmount customerNA) = Num 7 \<and>
   addDeals [customerNA] s_weizhi_yewuyuan (Num 7) = addDeals [] s_weizhi_yewuyuan (Num 7) \<and>
   dealAmount (dealWithAmount (ascii ''N/A'')) = NaN \<and>
   isDealtMonthly (dealWithAmount (ascii ''N/A'')) \<and>
   (\<exists>e. map_of (monthlyStep sampleEngineParse 40 (dealWithAmount (ascii ''N/A'')) [])
          (monthKeyOf \<lparr>d_year = 2024, d_month = 2, d_day = 15, d_time = 0\<rparr>) = Some e \<and>
        mr_completedDeals e = 1 \<and> mr_totalAmount e = Num 0) \<and>
   map mr_averageAmount
     (sortedMonthlyData sampleEngineParse 40
        [dealWithAmount (ascii ''10000''), dealWithAmount (ascii ''N/A'')]) = [Num 5000]"
proof -
  have a: "filter (\<lambda>ch. isDigit ch \<or> ch = 0x2E) (ascii ''N/A'') = []"
    by (simp add: ascii_def isDigit_def)
  have b: "ascii ''1,250.50 NTD'' \<noteq> []"
    "filter (\<lambda>ch. isDigit ch \<or> ch = 0x2E) (ascii ''1,250.50 NTD'') = ascii ''1250.50''"
    by (simp_all add: ascii_def isDigit_def)
  show ?thesis
    using parseAmount_strips_and_NaN_counts_as_zero [where s = "ascii ''N/A''"
        and c = customerNA and t = "Num 7" and cs = "[]" and k = s_weizhi_yewuyuan]
      parseAmount_strips_and_NaN_counts_as_zero [where s = "ascii ''1,250.50 NTD''"]
      parseAmount_strips_and_NaN_counts_as_zero [where c = "dealWithAmount (ascii ''N/A'')"
        and gp = sampleEngineParse and thr = 40 and md = "[]"
        and cs' = "[dealWithAmount (ascii ''10000''), dealWithAmount (ascii ''N/A'')]"
        and d = "\<lparr>d_year = 2024, d_month = 2, d_day = 15, d_time = 0\<rparr>"]
    by (simp add: a b dealAmount_NA amountsN flagsN serviceDateN sample_20240315
          ascii_date_nonempty monthlyN)
qed

end
